theory Spec2Isabelle
  imports Complex_Main
begin

section \<open>JavaScript numbers\<close>

text \<open>
  Every numeric value of \<^verbatim>\<open>src/index.ts\<close> is a JavaScript \<^verbatim>\<open>number\<close>. The model keeps
  the three special values apart from the finite ones, because the source relies on them
  (\<^verbatim>\<open>Infinity\<close> is a documented argument of \<^verbatim>\<open>scrollTo\<close>, and \<^verbatim>\<open>x || 0\<close> treats
  \<^verbatim>\<open>NaN\<close> like \<^verbatim>\<open>0\<close>). Finite doubles are idealised as reals: rounding, overflow to
  infinity and the sign of zero are not modelled. What is proved below of \<^verbatim>\<open>scrollTo\<close>,
  of the committed position, of the frame rule, of gliding, of disposal and of the
  wheel is stated in terms of the operations themselves and uses of the arithmetic only
  that \<open>x + 0\<close> is \<open>x\<close> and how \<^verbatim>\<open>Math.max\<close>, \<^verbatim>\<open>Math.min\<close> and the comparisons order the
  numbers; it is the bound on the number of frames of a decaying motion that is proved
  for the exact arithmetic.
\<close>

datatype jsnum = Fin real | PInf | NInf | NaN

fun js_neg :: "jsnum \<Rightarrow> jsnum" where
  "js_neg (Fin a) = Fin (- a)"
| "js_neg PInf = NInf"
| "js_neg NInf = PInf"
| "js_neg NaN = NaN"

text \<open>\<^verbatim>\<open>a + b\<close>\<close>

fun js_add :: "jsnum \<Rightarrow> jsnum \<Rightarrow> jsnum" where
  "js_add NaN _ = NaN"
| "js_add _ NaN = NaN"
| "js_add (Fin a) (Fin b) = Fin (a + b)"
| "js_add PInf NInf = NaN"
| "js_add NInf PInf = NaN"
| "js_add PInf _ = PInf"
| "js_add NInf _ = NInf"
| "js_add (Fin a) PInf = PInf"
| "js_add (Fin a) NInf = NInf"

text \<open>\<^verbatim>\<open>a - b\<close>\<close>

definition js_sub :: "jsnum \<Rightarrow> jsnum \<Rightarrow> jsnum" where
  "js_sub a b = js_add a (js_neg b)"

text \<open>The sign of a non-zero real applied to an infinity; a zero factor gives \<^verbatim>\<open>NaN\<close>.\<close>

definition inf_times :: "bool \<Rightarrow> real \<Rightarrow> jsnum" where
  "inf_times positive a =
     (if a = 0 then NaN else if (0 < a) = positive then PInf else NInf)"

text \<open>\<^verbatim>\<open>a * b\<close>\<close>

fun js_mul :: "jsnum \<Rightarrow> jsnum \<Rightarrow> jsnum" where
  "js_mul NaN _ = NaN"
| "js_mul _ NaN = NaN"
| "js_mul (Fin a) (Fin b) = Fin (a * b)"
| "js_mul (Fin a) PInf = inf_times True a"
| "js_mul (Fin a) NInf = inf_times False a"
| "js_mul PInf (Fin b) = inf_times True b"
| "js_mul NInf (Fin b) = inf_times False b"
| "js_mul PInf PInf = PInf"
| "js_mul NInf NInf = PInf"
| "js_mul PInf NInf = NInf"
| "js_mul NInf PInf = NInf"

text \<open>\<^verbatim>\<open>a < b\<close> and \<^verbatim>\<open>a <= b\<close>: false as soon as one side is \<^verbatim>\<open>NaN\<close>.\<close>

fun js_lt :: "jsnum \<Rightarrow> jsnum \<Rightarrow> bool" where
  "js_lt NaN _ = False"
| "js_lt _ NaN = False"
| "js_lt (Fin a) (Fin b) = (a < b)"
| "js_lt _ NInf = False"
| "js_lt PInf _ = False"
| "js_lt NInf _ = True"
| "js_lt (Fin a) PInf = True"

fun js_le :: "jsnum \<Rightarrow> jsnum \<Rightarrow> bool" where
  "js_le NaN _ = False"
| "js_le _ NaN = False"
| "js_le (Fin a) (Fin b) = (a \<le> b)"
| "js_le NInf _ = True"
| "js_le _ PInf = True"
| "js_le PInf _ = False"
| "js_le (Fin a) NInf = False"

text \<open>\<^verbatim>\<open>a >= b\<close>\<close>

definition js_ge :: "jsnum \<Rightarrow> jsnum \<Rightarrow> bool" where
  "js_ge a b = js_le b a"

text \<open>\<^verbatim>\<open>a === b\<close> on numbers: \<^verbatim>\<open>NaN\<close> equals nothing.\<close>

definition js_eq :: "jsnum \<Rightarrow> jsnum \<Rightarrow> bool" where
  "js_eq a b = (a \<noteq> NaN \<and> b \<noteq> NaN \<and> a = b)"

text \<open>Truthiness of a number, as \<^verbatim>\<open>||\<close> and \<^verbatim>\<open>!\<close> test it: \<^verbatim>\<open>0\<close> and \<^verbatim>\<open>NaN\<close> are falsy.\<close>

definition truthy :: "jsnum \<Rightarrow> bool" where
  "truthy a = (a \<noteq> NaN \<and> a \<noteq> Fin 0)"

text \<open>\<^verbatim>\<open>Math.abs\<close>, \<^verbatim>\<open>Math.max\<close>, \<^verbatim>\<open>Math.min\<close>\<close>

fun js_abs :: "jsnum \<Rightarrow> jsnum" where
  "js_abs (Fin a) = Fin \<bar>a\<bar>"
| "js_abs PInf = PInf"
| "js_abs NInf = PInf"
| "js_abs NaN = NaN"

definition js_max :: "jsnum \<Rightarrow> jsnum \<Rightarrow> jsnum" where
  "js_max a b = (if a = NaN \<or> b = NaN then NaN else if js_lt a b then b else a)"

definition js_min :: "jsnum \<Rightarrow> jsnum \<Rightarrow> jsnum" where
  "js_min a b = (if a = NaN \<or> b = NaN then NaN else if js_lt b a then b else a)"

text \<open>\<^verbatim>\<open>const clamp = (bottom, value, top) => max(bottom, min(top, value))\<close>\<close>

definition clamp :: "jsnum \<Rightarrow> jsnum \<Rightarrow> jsnum \<Rightarrow> jsnum" where
  "clamp bottom v top1 = js_max bottom (js_min top1 v)"

text \<open>\<^verbatim>\<open>const isWithin = (min, value, max) => value >= min && value <= max\<close>\<close>

definition isWithin :: "jsnum \<Rightarrow> jsnum \<Rightarrow> jsnum \<Rightarrow> bool" where
  "isWithin lo v hi = (js_ge v lo \<and> js_le v hi)"

text \<open>\<^verbatim>\<open>x || 0\<close> for a number or \<^verbatim>\<open>undefined\<close>\<close>

definition or_zero :: "jsnum option \<Rightarrow> jsnum" where
  "or_zero v = (case v of None \<Rightarrow> Fin 0 | Some a \<Rightarrow> if truthy a then a else Fin 0)"

definition STANDARD_FRAME_TIME :: real where
  "STANDARD_FRAME_TIME = 1000 / 60"

section \<open>State\<close>

text \<open>
  The part of the DOM element the scroller touches. The scroll offsets are kept as they
  are written: what a browser does to an assigned offset (rounding, its own clamping) is
  not in the source and is not modelled. The sizes are finite numbers.
\<close>

record element =
  scrollLeft :: jsnum
  scrollTop :: jsnum
  scrollWidth :: real
  clientWidth :: real
  scrollHeight :: real
  clientHeight :: real

record position =
  left :: jsnum
  top' :: jsnum

record scroll_length =
  width :: jsnum
  height :: jsnum

text \<open>\<^verbatim>\<open>Partial<Position>\<close> and \<^verbatim>\<open>ScrollOptions = Partial<Position> & {friction?: number}\<close>\<close>

record partial_position =
  o_left :: "jsnum option"
  o_top :: "jsnum option"

record scroll_options = partial_position +
  o_friction :: "jsnum option"

text \<open>\<^verbatim>\<open>Partial<Options>\<close> of \<^verbatim>\<open>makeScroller\<close>\<close>

record options =
  frictionOption :: "jsnum option"
  doHandleWheel :: "bool option"
  flipWheelOption :: "bool option"
  wheelFrictionOption :: "jsnum option"

text \<open>
  The module's variables: \<^verbatim>\<open>minFrameTime\<close>, \<^verbatim>\<open>lastGlobalWheel\<close> (a value of
  \<^verbatim>\<open>Date.now()\<close>, whole milliseconds) and \<^verbatim>\<open>ignoreEvent\<close> (an event, here its identity).
\<close>

record globals =
  minFrameTime :: real
  lastGlobalWheel :: int
  ignoreEvent :: "nat option"

record wheel_event =
  ev_id :: nat
  deltaX :: jsnum
  deltaY :: jsnum
  defaultPrevented :: bool

text \<open>
  One scroller: the fields of \<^verbatim>\<open>self\<close> that the code reads, the animation variables of
  the closure, the element, and the two pieces of the host the closure talks to: the
  listeners it has bound, and the animation-frame callbacks it has requested
  (\<open>raf_queue\<close>, the handles of the queued \<^verbatim>\<open>render\<close> callbacks in request order;
  \<open>raf_last\<close>, the last handle the host has issued; handles are positive). The times
  the host passes to \<^verbatim>\<open>render\<close>, and with them \<^verbatim>\<open>lastFrameTime\<close> and \<^verbatim>\<open>minFrameTime\<close>,
  are finite numbers.
\<close>

record scroller =
  self_friction :: jsnum
  self_flipWheel :: bool
  self_wheelFriction :: jsnum
  disposed :: bool
  friction :: jsnum
  currentPosition :: position
  scrolling :: "(jsnum \<times> jsnum) option"
  gliding :: "(jsnum \<times> jsnum) option"
  frameId :: "nat option"
  lastFrameTime :: "real option"
  el :: element
  wheel_bound :: bool
  scroll_bound :: bool
  raf_queue :: "nat list"
  raf_last :: nat

section \<open>The scroller's functions\<close>

definition getPosition :: "scroller \<Rightarrow> position" where
  "getPosition s = \<lparr>left = scrollLeft (el s), top' = scrollTop (el s)\<rparr>"

definition getScrollLength :: "scroller \<Rightarrow> scroll_length" where
  "getScrollLength s =
     \<lparr>width = Fin (scrollWidth (el s) - clientWidth (el s)),
      height = Fin (scrollHeight (el s) - clientHeight (el s))\<rparr>"

definition setPosition :: "position \<Rightarrow> scroller \<Rightarrow> scroller" where
  "setPosition p s =
     s\<lparr>currentPosition := p, el := (el s)\<lparr>scrollLeft := left p, scrollTop := top' p\<rparr>\<rparr>"

text \<open>Truthiness of a value that is an object or \<^verbatim>\<open>null\<close>, as \<^verbatim>\<open>if (scrolling)\<close> tests it.\<close>

definition active :: "'a option \<Rightarrow> bool" where
  "active v = (case v of None \<Rightarrow> False | Some _ \<Rightarrow> True)"

text \<open>\<^verbatim>\<open>requestAnimationFrame(render)\<close>: the host issues the next handle and queues the callback.\<close>

definition requestAnimationFrame :: "scroller \<Rightarrow> nat \<times> scroller" where
  "requestAnimationFrame s =
     (let h = Suc (raf_last s) in (h, s\<lparr>raf_last := h, raf_queue := raf_queue s @ [h]\<rparr>))"

definition cancelAnimationFrame :: "nat \<Rightarrow> scroller \<Rightarrow> scroller" where
  "cancelAnimationFrame h s = s\<lparr>raf_queue := removeAll h (raf_queue s)\<rparr>"

text \<open>\<^verbatim>\<open>!frameId\<close>: no handle, or the handle \<^verbatim>\<open>0\<close>.\<close>

definition no_frame :: "nat option \<Rightarrow> bool" where
  "no_frame f = (case f of None \<Rightarrow> True | Some h \<Rightarrow> h = 0)"

definition requestRender :: "scroller \<Rightarrow> scroller" where
  "requestRender s =
     (if no_frame (frameId s)
      then (case requestAnimationFrame s of (h, s') \<Rightarrow> s'\<lparr>frameId := Some h\<rparr>)
      else s)"

text \<open>
  \<^verbatim>\<open>render\<close>, in the order of the source. \<open>timeDelta\<close> is the time since the last
  frame, or \<^verbatim>\<open>minFrameTime\<close> on the first frame of a run.
\<close>

definition timeDelta :: "real \<Rightarrow> globals \<Rightarrow> scroller \<Rightarrow> real" where
  "timeDelta time g s =
     (case lastFrameTime s of Some l \<Rightarrow> time - l | None \<Rightarrow> minFrameTime g)"

definition adjustedFriction :: "jsnum \<Rightarrow> real \<Rightarrow> jsnum" where
  "adjustedFriction f td =
     (let standardFrameTimeDeviation = td / STANDARD_FRAME_TIME
      in clamp (Fin 0) (js_mul f (Fin standardFrameTimeDeviation)) (Fin 1))"

text \<open>
  One axis of the scrolling block: the value written back into the velocity vector, from
  the velocity \<open>v\<close>, the frame's delta, the cached position and the scrollable length.
\<close>

definition axis_velocity :: "jsnum \<Rightarrow> jsnum \<Rightarrow> jsnum \<Rightarrow> jsnum \<Rightarrow> jsnum" where
  "axis_velocity v delta pos len =
     (if js_lt (js_abs delta) (Fin 0.2) \<or> \<not> isWithin (Fin 0) (js_add pos delta) len
      then Fin 0 else js_sub v delta)"

text \<open>
  The block \<^verbatim>\<open>if (scrolling) {...}\<close>: the new value of \<^verbatim>\<open>scrolling\<close>, and \<^verbatim>\<open>leftBy\<close> and
  \<^verbatim>\<open>topBy\<close> after it (both start at \<^verbatim>\<open>0\<close>).
\<close>

definition scrolling_block ::
  "real \<Rightarrow> scroller \<Rightarrow> (jsnum \<times> jsnum) option \<times> jsnum \<times> jsnum" where
  "scrolling_block td s =
     (case scrolling s of
        None \<Rightarrow> (None, Fin 0, Fin 0)
      | Some (x, y) \<Rightarrow>
          let af = adjustedFriction (friction s) td;
              xDelta = js_mul x af;
              yDelta = js_mul y af;
              x1 = axis_velocity x xDelta (left (currentPosition s)) (width (getScrollLength s));
              y1 = axis_velocity y yDelta (top' (currentPosition s)) (height (getScrollLength s))
          in (if js_eq x1 (Fin 0) \<and> js_eq y1 (Fin 0) then None else Some (x1, y1),
              js_add (Fin 0) xDelta, js_add (Fin 0) yDelta))"

text \<open>The block \<^verbatim>\<open>if (gliding) {...}\<close>: \<^verbatim>\<open>leftBy\<close> and \<^verbatim>\<open>topBy\<close> after it.\<close>

definition gliding_block :: "real \<Rightarrow> scroller \<Rightarrow> jsnum \<times> jsnum \<Rightarrow> jsnum \<times> jsnum" where
  "gliding_block td s moved =
     (case gliding s of
        None \<Rightarrow> moved
      | Some (x, y) \<Rightarrow>
          let secondFraction = td / 1000
          in (js_add (fst moved) (js_mul x (Fin secondFraction)),
              js_add (snd moved) (js_mul y (Fin secondFraction))))"

definition render :: "real \<Rightarrow> globals \<Rightarrow> scroller \<Rightarrow> scroller" where
  "render time g s =
     (if disposed s then s
      else
        let td = timeDelta time g s;
            l = left (currentPosition s);
            t = top' (currentPosition s);
            w = width (getScrollLength s);
            h = height (getScrollLength s);
            (scrolling1, moved) = scrolling_block td s;
            (leftBy, topBy) = gliding_block td s moved;
            s1 = setPosition
                   \<lparr>left = clamp (Fin 0) (js_add l leftBy) w,
                    top' = clamp (Fin 0) (js_add t topBy) h\<rparr>
                   (s\<lparr>scrolling := scrolling1\<rparr>)
        in if active (gliding s1) \<or> active (scrolling s1)
           then requestRender (s1\<lparr>lastFrameTime := Some time, frameId := None\<rparr>)
           else s1\<lparr>lastFrameTime := None, frameId := None\<rparr>)"

text \<open>\<^verbatim>\<open>scrolling?.[0] || 0\<close> and \<^verbatim>\<open>scrolling?.[1] || 0\<close>\<close>

definition pendingX :: "scroller \<Rightarrow> jsnum" where
  "pendingX s = or_zero (map_option fst (scrolling s))"

definition pendingY :: "scroller \<Rightarrow> jsnum" where
  "pendingY s = or_zero (map_option snd (scrolling s))"

definition scrollBy :: "scroll_options \<Rightarrow> scroller \<Rightarrow> scroller" where
  "scrollBy opts s =
     (let l = (case o_left opts of None \<Rightarrow> Fin 0 | Some a \<Rightarrow> a);
          t = (case o_top opts of None \<Rightarrow> Fin 0 | Some a \<Rightarrow> a);
          f = (case o_friction opts of
                 None \<Rightarrow> self_friction s
               | Some a \<Rightarrow> if truthy a then a else self_friction s)
      in requestRender
           (s\<lparr>friction := f, scrolling := Some (js_add (pendingX s) l, js_add (pendingY s) t)\<rparr>))"

definition scrollTo :: "scroll_options \<Rightarrow> scroller \<Rightarrow> scroller" where
  "scrollTo opts s =
     (let w = width (getScrollLength s);
          h = height (getScrollLength s)
      in scrollBy
           \<lparr>o_left = Some (case o_left opts of
                 None \<Rightarrow> Fin 0
               | Some a \<Rightarrow> js_sub (clamp (Fin 0) a w)
                            (js_add (left (currentPosition s)) (pendingX s))),
            o_top = Some (case o_top opts of
                 None \<Rightarrow> Fin 0
               | Some a \<Rightarrow> js_sub (clamp (Fin 0) a h)
                            (js_add (top' (currentPosition s)) (pendingY s))),
            o_friction = o_friction opts\<rparr> s)"

definition glide :: "partial_position \<Rightarrow> scroller \<Rightarrow> scroller" where
  "glide opts s =
     requestRender (s\<lparr>gliding := Some (or_zero (o_left opts), or_zero (o_top opts))\<rparr>)"

definition stop :: "scroller \<Rightarrow> scroller" where
  "stop s =
     (let s1 = (case frameId s of None \<Rightarrow> s | Some h \<Rightarrow> cancelAnimationFrame h s)
      in s1\<lparr>frameId := None, lastFrameTime := None, gliding := None, scrolling := None\<rparr>)"

text \<open>
  \<^verbatim>\<open>handleWheel\<close>, the element's wheel listener. \<open>now\<close> is \<^verbatim>\<open>Date.now()\<close>. The result is
  the event, the module's variables and the scroller after the call.
\<close>

definition handleWheel ::
  "int \<Rightarrow> wheel_event \<Rightarrow> globals \<Rightarrow> scroller \<Rightarrow> wheel_event \<times> globals \<times> scroller" where
  "handleWheel now ev g s =
     (if now - lastGlobalWheel g < 300 then (ev, g, s)
      else
        (ev\<lparr>defaultPrevented := True\<rparr>,
         g\<lparr>ignoreEvent := Some (ev_id ev)\<rparr>,
         scrollBy
           (if self_flipWheel s
            then \<lparr>o_left = Some (deltaY ev), o_top = Some (deltaX ev),
                  o_friction = Some (self_wheelFriction s)\<rparr>
            else \<lparr>o_left = Some (deltaX ev), o_top = Some (deltaY ev),
                  o_friction = Some (self_wheelFriction s)\<rparr>) s))"

text \<open>The module's listener on \<^verbatim>\<open>window\<close>.\<close>

definition window_wheel :: "int \<Rightarrow> wheel_event \<Rightarrow> globals \<Rightarrow> globals" where
  "window_wheel now ev g =
     (if Some (ev_id ev) \<noteq> ignoreEvent g then g\<lparr>lastGlobalWheel := now\<rparr> else g)"

text \<open>
  One wheel event dispatched on the element: the element's listener runs first, if it is
  bound, and then, as the event bubbles, the module's listener on \<^verbatim>\<open>window\<close>. \<open>now\<close> and
  \<open>later\<close> are what \<^verbatim>\<open>Date.now()\<close> returns in the one and in the other. A wheel event
  dispatched elsewhere on the page reaches the module's listener only.
\<close>

definition dispatch_wheel ::
  "int \<Rightarrow> int \<Rightarrow> wheel_event \<Rightarrow> globals \<Rightarrow> scroller \<Rightarrow> wheel_event \<times> globals \<times> scroller" where
  "dispatch_wheel now later ev g s =
     (case (if wheel_bound s then handleWheel now ev g s else (ev, g, s)) of
        (ev1, g1, s1) \<Rightarrow> (ev1, window_wheel later ev1 g1, s1))"

definition handleScroll :: "scroller \<Rightarrow> scroller" where
  "handleScroll s = (if no_frame (frameId s) then s\<lparr>currentPosition := getPosition s\<rparr> else s)"

definition dispose :: "scroller \<Rightarrow> scroller" where
  "dispose s =
     (let s1 = (stop s)\<lparr>disposed := True, wheel_bound := False, scroll_bound := False\<rparr>
      in if no_frame (frameId s1) then s1
         else (case frameId s1 of None \<Rightarrow> s1 | Some h \<Rightarrow> cancelAnimationFrame h s1))"

text \<open>
  \<^verbatim>\<open>makeScroller\<close>: the state of a new scroller on an element. The host's frame queue
  holds none of its callbacks yet; \<open>last_handle\<close> is the last handle the host has issued.
\<close>

definition makeScroller :: "element \<Rightarrow> options \<Rightarrow> nat \<Rightarrow> scroller" where
  "makeScroller e opts last_handle =
     (let f = (case frictionOption opts of None \<Rightarrow> Fin 0.2 | Some a \<Rightarrow> a)
      in \<lparr>self_friction = f,
          self_flipWheel = (case flipWheelOption opts of None \<Rightarrow> False | Some b \<Rightarrow> b),
          self_wheelFriction = (case wheelFrictionOption opts of None \<Rightarrow> Fin 0.25 | Some a \<Rightarrow> a),
          disposed = False,
          friction = f,
          currentPosition = \<lparr>left = scrollLeft e, top' = scrollTop e\<rparr>,
          scrolling = None,
          gliding = None,
          frameId = None,
          lastFrameTime = None,
          el = e,
          wheel_bound = (case doHandleWheel opts of None \<Rightarrow> False | Some b \<Rightarrow> b),
          scroll_bound = True,
          raf_queue = [],
          raf_last = last_handle\<rparr>)"

section \<open>The host: frames and calls\<close>

text \<open>
  One animation frame of the host at time \<open>time\<close>: the callbacks queued so far are taken
  off the queue and run in order; a callback requested meanwhile waits for the next frame.
\<close>

definition frame :: "real \<Rightarrow> globals \<Rightarrow> scroller \<Rightarrow> scroller" where
  "frame time g s = fold (\<lambda>_. render time g) (raf_queue s) (s\<lparr>raf_queue := []\<rparr>)"

datatype call =
    ScrollTo scroll_options
  | ScrollBy scroll_options
  | Glide partial_position
  | Stop
  | Dispose
  | Frame real

fun step :: "globals \<Rightarrow> call \<Rightarrow> scroller \<Rightarrow> scroller" where
  "step g (ScrollTo opts) s = scrollTo opts s"
| "step g (ScrollBy opts) s = scrollBy opts s"
| "step g (Glide opts) s = glide opts s"
| "step g Stop s = stop s"
| "step g Dispose s = dispose s"
| "step g (Frame time) s = frame time g s"

fun run :: "globals \<Rightarrow> call list \<Rightarrow> scroller \<Rightarrow> scroller" where
  "run g [] s = s"
| "run g (c # cs) s = run g cs (step g c s)"

section \<open>Auxiliary notions for the properties\<close>

text \<open>A finite number: neither an infinity nor \<^verbatim>\<open>NaN\<close>.\<close>

definition is_fin :: "jsnum \<Rightarrow> bool" where
  "is_fin a = (case a of Fin _ \<Rightarrow> True | _ \<Rightarrow> False)"

text \<open>
  Single flight: the closure holds a frame handle exactly when that frame's callback is
  the one callback queued with the host.
\<close>

definition single_flight :: "scroller \<Rightarrow> bool" where
  "single_flight s =
     (case frameId s of None \<Rightarrow> raf_queue s = [] | Some h \<Rightarrow> 0 < h \<and> raf_queue s = [h])"

text \<open>
  The frame rule as the specification words it (section 4.3, step 3): the adjusted
  friction of a frame, and the next velocity of one axis from its velocity, its delta,
  its position and its scrollable length.
\<close>

definition spec_adjustedFriction :: "jsnum \<Rightarrow> real \<Rightarrow> jsnum" where
  "spec_adjustedFriction frictionInEffect elapsed =
     clamp (Fin 0) (js_mul frictionInEffect (Fin (elapsed / (1000 / 60)))) (Fin 1)"

definition spec_next_velocity :: "jsnum \<Rightarrow> jsnum \<Rightarrow> jsnum \<Rightarrow> jsnum \<Rightarrow> jsnum" where
  "spec_next_velocity velocity delta pos len =
     (if js_lt (js_abs delta) (Fin 0.2) then Fin 0
      else if js_le (Fin 0) (js_add pos delta) \<and> js_le (js_add pos delta) len
      then js_sub velocity delta
      else Fin 0)"

text \<open>
  The delta velocity of \<^verbatim>\<open>scrollTo\<close> on one axis as the specification words it (section
  4.4): what is missing for the cached position plus the pending velocity to be the
  clamped target, and 0 for an axis that is omitted.
\<close>

definition spec_delta :: "jsnum option \<Rightarrow> jsnum \<Rightarrow> jsnum \<Rightarrow> jsnum \<Rightarrow> jsnum" where
  "spec_delta target len pos pending =
     (case target of
        None \<Rightarrow> Fin 0
      | Some a \<Rightarrow> js_sub (clamp (Fin 0) a len) (js_add pos pending))"

text \<open>
  \<open>n\<close> frames of the host, the first at time \<open>time\<close>, each one standard frame time after
  the one before.
\<close>

fun standard_frames :: "nat \<Rightarrow> real \<Rightarrow> globals \<Rightarrow> scroller \<Rightarrow> scroller" where
  "standard_frames 0 time g s = s"
| "standard_frames (Suc n) time g s =
     standard_frames n (time + STANDARD_FRAME_TIME) g (frame time g s)"

text \<open>The size of a velocity component; a component that is not finite counts as 0.\<close>

definition magnitude :: "jsnum \<Rightarrow> real" where
  "magnitude a = (case a of Fin r \<Rightarrow> \<bar>r\<bar> | _ \<Rightarrow> 0)"

text \<open>
  A number of standard frames after which a scrolling motion of velocity \<open>(x, y)\<close> has
  ended, whatever the friction in the open interval from 0 to 1.
\<close>

definition frames_bound :: "jsnum \<Rightarrow> jsnum \<Rightarrow> nat" where
  "frames_bound x y = nat \<lceil>5 * max (magnitude x) (magnitude y)\<rceil> + 2"

text \<open>
  A scroller that glides with the vector \<^verbatim>\<open>[0, 0]\<close>, is not disposed, and has its next
  frame queued.
\<close>

definition zero_glide :: "scroller \<Rightarrow> bool" where
  "zero_glide s =
     (\<not> disposed s \<and> gliding s = Some (Fin 0, Fin 0)
      \<and> (\<exists>h. frameId s = Some h \<and> raf_queue s = [h]))"

text \<open>
  The loop invariant of a decaying motion under friction \<open>f\<close>, before the standard frame
  at time \<open>time\<close>: the motion has ended, or both components are finite and at most \<open>B\<close>
  in size, the next frame is queued, and the last frame was one standard frame time ago.
\<close>

definition decaying :: "real \<Rightarrow> real \<Rightarrow> real \<Rightarrow> scroller \<Rightarrow> bool" where
  "decaying f B time s =
     (\<not> disposed s \<and> friction s = Fin f
      \<and> (scrolling s = None
         \<or> (\<exists>a b h. scrolling s = Some (Fin a, Fin b) \<and> \<bar>a\<bar> \<le> B \<and> \<bar>b\<bar> \<le> B
               \<and> frameId s = Some h \<and> raf_queue s = [h]
               \<and> lastFrameTime s = Some (time - STANDARD_FRAME_TIME))))"

text \<open>
  The element, module variables and options of the worked examples: an element scrolled
  to 499 of 1000 scrollable pixels horizontally and to 0 of 500 vertically, the module
  variables as the module initialises them, and no option given.
\<close>

definition example_element :: element where
  "example_element =
     \<lparr>scrollLeft = Fin 499, scrollTop = Fin 0, scrollWidth = 1500, clientWidth = 500,
      scrollHeight = 800, clientHeight = 300\<rparr>"

definition example_globals :: globals where
  "example_globals = \<lparr>minFrameTime = 1000 / 60, lastGlobalWheel = 0, ignoreEvent = None\<rparr>"

definition no_options :: options where
  "no_options =
     \<lparr>frictionOption = None, doHandleWheel = None, flipWheelOption = None,
      wheelFrictionOption = None\<rparr>"

definition example_scroller :: scroller where
  "example_scroller = makeScroller example_element no_options 0"

definition foreign_wheel :: wheel_event where
  "foreign_wheel = \<lparr>ev_id = 3, deltaX = Fin 0, deltaY = Fin 100, defaultPrevented = False\<rparr>"

definition example_wheel :: wheel_event where
  "example_wheel = \<lparr>ev_id = 7, deltaX = Fin 0, deltaY = Fin 120, defaultPrevented = False\<rparr>"

section \<open>Facts about the numbers\<close>

lemmas js_defs = js_sub_def js_ge_def js_eq_def truthy_def js_max_def js_min_def clamp_def
  isWithin_def or_zero_def inf_times_def

lemma js_add_zero [simp]: "js_add (Fin 0) a = a" "js_add a (Fin 0) = a"
  by (cases a; simp)+

lemma js_NaN [simp]:
  "js_add a NaN = NaN" "js_mul a NaN = NaN" "\<not> js_lt a NaN" "\<not> js_le a NaN"
  by (cases a; simp)+

lemma is_fin_simps [simp]: "is_fin (Fin r)" "\<not> is_fin PInf" "\<not> is_fin NInf" "\<not> is_fin NaN"
  by (simp_all add: is_fin_def)

lemma is_fin_conv: "is_fin a \<longleftrightarrow> (\<exists>r. a = Fin r)"
  by (cases a) simp_all

lemma clamp_fin: "clamp (Fin 0) (Fin r) (Fin w) = Fin (max 0 (min w r))"
  by (auto simp add: js_defs)

lemma or_zero_fin: "is_fin a \<Longrightarrow> or_zero (Some a) = a"
  by (auto simp add: or_zero_def truthy_def is_fin_conv)

lemma magnitude_nonneg: "0 \<le> magnitude x"
  by (cases x) (simp_all add: magnitude_def)

section \<open>What the functions do to each part of the state\<close>

lemma requestRender_fields [simp]:
  "disposed (requestRender s) = disposed s"
  "friction (requestRender s) = friction s"
  "self_friction (requestRender s) = self_friction s"
  "self_flipWheel (requestRender s) = self_flipWheel s"
  "self_wheelFriction (requestRender s) = self_wheelFriction s"
  "currentPosition (requestRender s) = currentPosition s"
  "scrolling (requestRender s) = scrolling s"
  "gliding (requestRender s) = gliding s"
  "lastFrameTime (requestRender s) = lastFrameTime s"
  "el (requestRender s) = el s"
  "wheel_bound (requestRender s) = wheel_bound s"
  "scroll_bound (requestRender s) = scroll_bound s"
  by (simp_all add: requestRender_def requestAnimationFrame_def Let_def)

lemma requestRender_frame:
  "frameId (requestRender s) =
     (if no_frame (frameId s) then Some (Suc (raf_last s)) else frameId s)"
  "raf_queue (requestRender s) =
     (if no_frame (frameId s) then raf_queue s @ [Suc (raf_last s)] else raf_queue s)"
  "raf_last (requestRender s) =
     (if no_frame (frameId s) then Suc (raf_last s) else raf_last s)"
  by (simp_all add: requestRender_def requestAnimationFrame_def Let_def)

lemma render_disposed: "disposed s \<Longrightarrow> render t g s = s"
  by (simp add: render_def)

lemma render_fields [simp]:
  "disposed (render t g s) = disposed s"
  "friction (render t g s) = friction s"
  "self_friction (render t g s) = self_friction s"
  "self_flipWheel (render t g s) = self_flipWheel s"
  "self_wheelFriction (render t g s) = self_wheelFriction s"
  "gliding (render t g s) = gliding s"
  "wheel_bound (render t g s) = wheel_bound s"
  "scroll_bound (render t g s) = scroll_bound s"
  by (simp_all add: render_def setPosition_def Let_def split: prod.splits option.splits)

lemma render_scrolling:
  "\<not> disposed s \<Longrightarrow> scrolling (render t g s) = fst (scrolling_block (timeDelta t g s) s)"
  by (simp add: render_def setPosition_def Let_def split: prod.splits)

lemma render_position:
  "\<not> disposed s \<Longrightarrow> currentPosition (render t g s) =
     (let moved = gliding_block (timeDelta t g s) s (snd (scrolling_block (timeDelta t g s) s))
      in \<lparr>left = clamp (Fin 0) (js_add (left (currentPosition s)) (fst moved))
                  (width (getScrollLength s)),
          top' = clamp (Fin 0) (js_add (top' (currentPosition s)) (snd moved))
                  (height (getScrollLength s))\<rparr>)"
  by (simp add: render_def setPosition_def Let_def split: prod.splits)

lemma render_el:
  "\<not> disposed s \<Longrightarrow> el (render t g s) =
     (el s)\<lparr>scrollLeft := left (currentPosition (render t g s)),
            scrollTop := top' (currentPosition (render t g s))\<rparr>"
  by (simp add: render_def setPosition_def Let_def split: prod.splits)

lemma render_frame:
  "\<not> disposed s \<Longrightarrow> frameId (render t g s) =
     (if active (gliding s) \<or> active (scrolling (render t g s))
      then Some (Suc (raf_last s)) else None)"
  "\<not> disposed s \<Longrightarrow> raf_queue (render t g s) =
     (if active (gliding s) \<or> active (scrolling (render t g s))
      then raf_queue s @ [Suc (raf_last s)] else raf_queue s)"
  "\<not> disposed s \<Longrightarrow> lastFrameTime (render t g s) =
     (if active (gliding s) \<or> active (scrolling (render t g s)) then Some t else None)"
  "\<not> disposed s \<Longrightarrow> raf_last (render t g s) =
     (if active (gliding s) \<or> active (scrolling (render t g s))
      then Suc (raf_last s) else raf_last s)"
  by (simp_all add: render_def setPosition_def Let_def requestRender_frame no_frame_def
      split: prod.splits)

lemma scrollBy_fields:
  "friction (scrollBy opts s) =
     (case o_friction opts of None \<Rightarrow> self_friction s
      | Some a \<Rightarrow> if truthy a then a else self_friction s)"
  "scrolling (scrollBy opts s) =
     Some (js_add (pendingX s) (case o_left opts of None \<Rightarrow> Fin 0 | Some a \<Rightarrow> a),
           js_add (pendingY s) (case o_top opts of None \<Rightarrow> Fin 0 | Some a \<Rightarrow> a))"
  "gliding (scrollBy opts s) = gliding s"
  "currentPosition (scrollBy opts s) = currentPosition s"
  "el (scrollBy opts s) = el s"
  "disposed (scrollBy opts s) = disposed s"
  "self_friction (scrollBy opts s) = self_friction s"
  "lastFrameTime (scrollBy opts s) = lastFrameTime s"
  "frameId (scrollBy opts s) =
     (if no_frame (frameId s) then Some (Suc (raf_last s)) else frameId s)"
  "raf_queue (scrollBy opts s) =
     (if no_frame (frameId s) then raf_queue s @ [Suc (raf_last s)] else raf_queue s)"
  by (simp_all add: scrollBy_def Let_def requestRender_frame)

lemma scrollTo_fields:
  "el (scrollTo opts s) = el s"
  "currentPosition (scrollTo opts s) = currentPosition s"
  "disposed (scrollTo opts s) = disposed s"
  "gliding (scrollTo opts s) = gliding s"
  by (simp_all add: scrollTo_def scrollBy_fields Let_def)

lemma glide_fields:
  "el (glide opts s) = el s"
  "currentPosition (glide opts s) = currentPosition s"
  "disposed (glide opts s) = disposed s"
  "scrolling (glide opts s) = scrolling s"
  "gliding (glide opts s) = Some (or_zero (o_left opts), or_zero (o_top opts))"
  "frameId (glide opts s) =
     (if no_frame (frameId s) then Some (Suc (raf_last s)) else frameId s)"
  "raf_queue (glide opts s) =
     (if no_frame (frameId s) then raf_queue s @ [Suc (raf_last s)] else raf_queue s)"
  by (simp_all add: glide_def requestRender_frame)

lemma stop_fields:
  "el (stop s) = el s"
  "currentPosition (stop s) = currentPosition s"
  "disposed (stop s) = disposed s"
  "scrolling (stop s) = None"
  "gliding (stop s) = None"
  "frameId (stop s) = None"
  "lastFrameTime (stop s) = None"
  "raf_queue (stop s) =
     (case frameId s of None \<Rightarrow> raf_queue s | Some h \<Rightarrow> removeAll h (raf_queue s))"
  by (simp_all add: stop_def cancelAnimationFrame_def Let_def split: option.splits)

lemma dispose_fields:
  "el (dispose s) = el s"
  "currentPosition (dispose s) = currentPosition s"
  "disposed (dispose s)"
  "scrolling (dispose s) = None"
  "gliding (dispose s) = None"
  "frameId (dispose s) = None"
  "raf_queue (dispose s) =
     (case frameId s of None \<Rightarrow> raf_queue s | Some h \<Rightarrow> removeAll h (raf_queue s))"
  by (simp_all add: dispose_def stop_fields no_frame_def Let_def)

lemma render_sizes:
  "scrollWidth (el (render t g s)) = scrollWidth (el s)"
  "clientWidth (el (render t g s)) = clientWidth (el s)"
  "scrollHeight (el (render t g s)) = scrollHeight (el s)"
  "clientHeight (el (render t g s)) = clientHeight (el s)"
  by (simp_all add: render_def setPosition_def Let_def split: prod.splits)

lemma fold_render_sizes:
  "scrollWidth (el (fold (\<lambda>_. render t g) q s)) = scrollWidth (el s)
   \<and> clientWidth (el (fold (\<lambda>_. render t g) q s)) = clientWidth (el s)
   \<and> scrollHeight (el (fold (\<lambda>_. render t g) q s)) = scrollHeight (el s)
   \<and> clientHeight (el (fold (\<lambda>_. render t g) q s)) = clientHeight (el s)"
  by (induction q arbitrary: s) (simp_all add: render_sizes)

lemma step_sizes:
  "scrollWidth (el (step g c s)) = scrollWidth (el s)
   \<and> clientWidth (el (step g c s)) = clientWidth (el s)
   \<and> scrollHeight (el (step g c s)) = scrollHeight (el s)
   \<and> clientHeight (el (step g c s)) = clientHeight (el s)"
proof (cases c)
  case (Frame t)
  with fold_render_sizes [of t g "raf_queue s" "s\<lparr>raf_queue := []\<rparr>"] show ?thesis
    by (simp add: frame_def)
qed (simp_all add: scrollTo_fields scrollBy_fields glide_fields stop_fields dispose_fields)

lemma run_sizes:
  "scrollWidth (el (run g cs s)) = scrollWidth (el s)
   \<and> clientWidth (el (run g cs s)) = clientWidth (el s)
   \<and> scrollHeight (el (run g cs s)) = scrollHeight (el s)
   \<and> clientHeight (el (run g cs s)) = clientHeight (el s)"
proof (induction cs arbitrary: s)
  case Nil
  show ?case by simp
next
  case (Cons c cs)
  from Cons [of "step g c s"] step_sizes [of g c s] show ?case by simp
qed

lemma render_scrolling_None: "scrolling s = None \<Longrightarrow> scrolling (render t g s) = None"
  by (cases "disposed s") (simp_all add: render_disposed render_scrolling scrolling_block_def)

lemma fold_render_scrolling_None:
  "scrolling s = None \<Longrightarrow> scrolling (fold (\<lambda>_. render t g) q s) = None"
  by (induction q arbitrary: s) (simp_all add: render_scrolling_None)

lemma fold_render_fields:
  "disposed (fold (\<lambda>_. render t g) q s) = disposed s"
  "friction (fold (\<lambda>_. render t g) q s) = friction s"
  by (induction q arbitrary: s) simp_all

lemma frame_scrolling_None: "scrolling s = None \<Longrightarrow> scrolling (frame t g s) = None"
  by (simp add: frame_def fold_render_scrolling_None)

lemma frame_fields:
  "disposed (frame t g s) = disposed s"
  "friction (frame t g s) = friction s"
  by (simp_all add: frame_def fold_render_fields)

text \<open>A rendered frame that leaves a scrolling motion has requested the next frame.\<close>

lemma render_motion_goes_on:
  assumes "\<not> disposed s" and "raf_queue s = []" and "scrolling (render t g s) = Some v"
  shows "frameId (render t g s) = Some (Suc (raf_last s))
       \<and> raf_queue (render t g s) = [Suc (raf_last s)]
       \<and> lastFrameTime (render t g s) = Some t"
  using assms by (simp add: render_frame active_def)

text \<open>Unfolding the functions on the worked examples.\<close>

lemmas eval_defs = frame_def render_def scrollTo_def scrollBy_def glide_def requestRender_def
  requestAnimationFrame_def no_frame_def active_def timeDelta_def adjustedFriction_def
  axis_velocity_def scrolling_block_def gliding_block_def setPosition_def getScrollLength_def
  pendingX_def pendingY_def STANDARD_FRAME_TIME_def Let_def js_defs makeScroller_def
  no_options_def example_element_def example_globals_def example_scroller_def

lemma example_scroller_fields:
  "self_friction example_scroller = Fin 0.2"
  "self_flipWheel example_scroller = False"
  "self_wheelFriction example_scroller = Fin 0.25"
  "disposed example_scroller = False"
  "friction example_scroller = Fin 0.2"
  "currentPosition example_scroller = \<lparr>left = Fin 499, top' = Fin 0\<rparr>"
  "scrolling example_scroller = None"
  "gliding example_scroller = None"
  "frameId example_scroller = None"
  "lastFrameTime example_scroller = None"
  "el example_scroller = example_element"
  "raf_queue example_scroller = []"
  "raf_last example_scroller = 0"
  by (simp_all add: example_scroller_def makeScroller_def no_options_def example_element_def
      Let_def)

section \<open>Gliding\<close>

text \<open>
  C4, as the specification states it, fails: \<^verbatim>\<open>glide\<close> does not leave the other axis
  alone. On a scroller gliding horizontally at 100 pixels per second, \<^verbatim>\<open>glide({top: -50})\<close>
  already sets the horizontal component to 0, and after \<^verbatim>\<open>glide({top: 0})\<close> the vector is
  \<^verbatim>\<open>[0, 0]\<close>: the horizontal glide has not continued.
\<close>

theorem glide_axes_not_independent:
  "gliding (glide \<lparr>o_left = Some (Fin 100), o_top = None\<rparr> example_scroller)
     = Some (Fin 100, Fin 0)
   \<and> gliding (glide \<lparr>o_left = None, o_top = Some (Fin (- 50))\<rparr>
        (glide \<lparr>o_left = Some (Fin 100), o_top = None\<rparr> example_scroller))
     = Some (Fin 0, Fin (- 50))
   \<and> gliding (glide \<lparr>o_left = None, o_top = Some (Fin 0)\<rparr>
        (glide \<lparr>o_left = None, o_top = Some (Fin (- 50))\<rparr>
          (glide \<lparr>o_left = Some (Fin 100), o_top = None\<rparr> example_scroller)))
     = Some (Fin 0, Fin 0)"
  by (simp add: glide_def or_zero_def truthy_def)

text \<open>
  C4, amended: \<^verbatim>\<open>glide\<close> replaces the whole gliding vector, whatever it was before. Each
  axis becomes the value supplied for it, and 0 when none (or \<^verbatim>\<open>NaN\<close>) is supplied. So
  \<^verbatim>\<open>glide({top: -50})\<close> followed by \<^verbatim>\<open>glide({top: 0})\<close> leaves the vector \<^verbatim>\<open>[0, 0]\<close> on
  every scroller: the vertical motion stops, and so has any horizontal glide.
\<close>

theorem glide_replaces_vector:
  "gliding (glide opts s) =
     Some (case o_left opts of None \<Rightarrow> Fin 0 | Some a \<Rightarrow> if a = NaN then Fin 0 else a,
           case o_top opts of None \<Rightarrow> Fin 0 | Some a \<Rightarrow> if a = NaN then Fin 0 else a)
   \<and> gliding (glide \<lparr>o_left = None, o_top = Some (Fin 0)\<rparr>
        (glide \<lparr>o_left = None, o_top = Some (Fin (- 50))\<rparr> s)) = Some (Fin 0, Fin 0)"
  by (auto simp add: glide_def or_zero_def truthy_def split: option.splits)

section \<open>Scrolling by an amount\<close>

lemma single_flight_requestRender:
  "single_flight s \<Longrightarrow> single_flight (requestRender s) \<and> frameId (requestRender s) \<noteq> None"
  by (auto simp add: single_flight_def requestRender_def requestAnimationFrame_def no_frame_def
      Let_def split: option.splits)

text \<open>
  C7, as the specification states it, fails: an override does not last until the motion
  has decayed. After \<^verbatim>\<open>scrollBy({left: 100, friction: 0.5})\<close> the friction in effect is 0.5;
  a \<^verbatim>\<open>scrollBy({left: 50})\<close> before any frame has run leaves the motion pending, with
  velocity 150, and puts the friction back to the instance default 0.2.
\<close>

theorem scrollBy_friction_reset_counterexample:
  "friction (scrollBy \<lparr>o_left = Some (Fin 100), o_top = None, o_friction = Some (Fin 0.5)\<rparr>
      example_scroller) = Fin 0.5
   \<and> scrolling (scrollBy \<lparr>o_left = Some (Fin 50), o_top = None, o_friction = None\<rparr>
        (scrollBy \<lparr>o_left = Some (Fin 100), o_top = None, o_friction = Some (Fin 0.5)\<rparr>
          example_scroller)) = Some (Fin 150, Fin 0)
   \<and> friction (scrollBy \<lparr>o_left = Some (Fin 50), o_top = None, o_friction = None\<rparr>
        (scrollBy \<lparr>o_left = Some (Fin 100), o_top = None, o_friction = Some (Fin 0.5)\<rparr>
          example_scroller)) = Fin 0.2"
  by (simp add: scrollBy_fields example_scroller_fields pendingX_def pendingY_def or_zero_def
      truthy_def)

text \<open>
  C7, amended: every \<^verbatim>\<open>scrollBy\<close> sets the friction in effect, to the friction it is
  passed or, when it is passed none (or 0, or \<^verbatim>\<open>NaN\<close>), to the instance default, whether
  or not a motion is pending; a rendered frame never changes the friction in effect.
  \<^verbatim>\<open>scrollBy\<close> adds its \<^verbatim>\<open>left\<close> and \<^verbatim>\<open>top\<close> (0 when absent) onto the pending velocity of
  each axis, and afterwards a frame is requested: on a scroller in single flight, the
  closure holds a handle and that frame's callback is queued.
\<close>

theorem scrollBy_friction_and_composition:
  assumes "single_flight s"
  shows "friction (scrollBy opts s) =
           (case o_friction opts of None \<Rightarrow> self_friction s
            | Some a \<Rightarrow> if a = NaN \<or> a = Fin 0 then self_friction s else a)
         \<and> friction (render t g s') = friction s'
         \<and> scrolling (scrollBy opts s) =
             Some (js_add (pendingX s) (case o_left opts of None \<Rightarrow> Fin 0 | Some a \<Rightarrow> a),
                   js_add (pendingY s) (case o_top opts of None \<Rightarrow> Fin 0 | Some a \<Rightarrow> a))
         \<and> (\<exists>h. frameId (scrollBy opts s) = Some h \<and> raf_queue (scrollBy opts s) = [h])"
proof -
  have "friction (scrollBy opts s) =
           (case o_friction opts of None \<Rightarrow> self_friction s
            | Some a \<Rightarrow> if a = NaN \<or> a = Fin 0 then self_friction s else a)"
    by (simp add: scrollBy_fields truthy_def split: option.splits)
  moreover have "\<exists>h. frameId (scrollBy opts s) = Some h \<and> raf_queue (scrollBy opts s) = [h]"
    using assms
    by (auto simp add: scrollBy_fields single_flight_def no_frame_def split: option.splits)
  ultimately show ?thesis
    by (simp add: scrollBy_fields)
qed

theorem scrollBy_friction_and_composition_witness:
  "single_flight example_scroller
   \<and> friction (scrollBy \<lparr>o_left = Some (Fin 100), o_top = None, o_friction = Some (Fin 0.5)\<rparr>
        example_scroller) = Fin 0.5
   \<and> scrolling (scrollBy \<lparr>o_left = Some (Fin 100), o_top = None, o_friction = Some (Fin 0.5)\<rparr>
        example_scroller) = Some (Fin 100, Fin 0)"
proof -
  have sf: "single_flight example_scroller"
    by (simp add: single_flight_def example_scroller_fields)
  have "pendingX example_scroller = Fin 0" "pendingY example_scroller = Fin 0"
    by (simp_all add: pendingX_def pendingY_def or_zero_def example_scroller_fields)
  with sf scrollBy_friction_and_composition
         [OF sf, of "\<lparr>o_left = Some (Fin 100), o_top = None, o_friction = Some (Fin 0.5)\<rparr>"]
  show ?thesis by simp
qed

section \<open>Disposal\<close>

lemma fold_render_disposed: "disposed s \<Longrightarrow> fold (\<lambda>_. render t g) q s = s"
  by (induction q) (simp_all add: render_disposed)

lemma frame_disposed: "disposed s \<Longrightarrow> frame t g s = s\<lparr>raf_queue := []\<rparr>"
  by (simp add: frame_def fold_render_disposed)

lemma step_disposed:
  "disposed s \<Longrightarrow> disposed (step g c s) \<and> el (step g c s) = el s
     \<and> currentPosition (step g c s) = currentPosition s"
  by (cases c) (simp_all add: scrollTo_fields scrollBy_fields glide_fields stop_fields
      dispose_fields frame_disposed)

lemma run_disposed:
  "disposed s \<Longrightarrow> disposed (run g cs s) \<and> el (run g cs s) = el s
     \<and> currentPosition (run g cs s) = currentPosition s"
proof (induction cs arbitrary: s)
  case Nil
  then show ?case by simp
next
  case (Cons c cs)
  from step_disposed [OF Cons.prems, of g c] Cons.IH [of "step g c s"]
  show ?case by simp
qed

text \<open>
  C8: after \<^verbatim>\<open>dispose()\<close>, whatever public calls and frames follow, the element's scroll
  offsets and the cached position are those at the time of disposal, and the scroller
  stays disposed; and \<^verbatim>\<open>render\<close> on a scroller whose inert flag is set, whatever else its
  state holds (a frame queued before disposal included), changes nothing.
\<close>

theorem dispose_no_position_write:
  "el (run g cs (dispose s)) = el s
   \<and> currentPosition (run g cs (dispose s)) = currentPosition s
   \<and> disposed (run g cs (dispose s))
   \<and> render t g (s\<lparr>disposed := True\<rparr>) = s\<lparr>disposed := True\<rparr>"
  using run_disposed [of "dispose s" g cs]
  by (simp add: dispose_fields render_disposed)

section \<open>Single flight\<close>

text \<open>
  Single flight holds for a new scroller and is kept by every public call and every
  frame, as long as the scroller is not disposed.
\<close>

lemma single_flight_makeScroller: "single_flight (makeScroller e opts n)"
  by (simp add: single_flight_def makeScroller_def Let_def)

lemma single_flight_render:
  assumes "\<not> disposed s" and "raf_queue s = []"
  shows "single_flight (render t g s)"
  using assms by (simp add: single_flight_def render_frame)

lemma single_flight_frame:
  assumes "single_flight s" and "\<not> disposed s"
  shows "single_flight (frame t g s)"
proof (cases "frameId s")
  case None
  with assms show ?thesis by (simp add: single_flight_def frame_def)
next
  case (Some h)
  with assms(1) have "frame t g s = render t g (s\<lparr>raf_queue := []\<rparr>)"
    by (simp add: single_flight_def frame_def)
  with assms(2) show ?thesis by (simp add: single_flight_render)
qed

lemma single_flight_scrollBy: "single_flight s \<Longrightarrow> single_flight (scrollBy opts s)"
  by (auto simp add: single_flight_def scrollBy_fields no_frame_def split: option.splits)

lemma single_flight_glide: "single_flight s \<Longrightarrow> single_flight (glide opts s)"
  by (auto simp add: single_flight_def glide_fields no_frame_def split: option.splits)

lemma single_flight_stop: "single_flight s \<Longrightarrow> single_flight (stop s)"
  by (auto simp add: single_flight_def stop_fields split: option.splits)

lemma single_flight_step:
  assumes "single_flight s" and "\<not> disposed (step g c s)"
  shows "single_flight (step g c s)"
proof (cases c)
  case (ScrollTo opts)
  with assms(1) show ?thesis by (simp add: scrollTo_def Let_def single_flight_scrollBy)
next
  case (ScrollBy opts)
  with assms(1) show ?thesis by (simp add: single_flight_scrollBy)
next
  case (Glide opts)
  with assms(1) show ?thesis by (simp add: single_flight_glide)
next
  case Stop
  with assms(1) show ?thesis by (simp add: single_flight_stop)
next
  case Dispose
  with assms(2) show ?thesis by (simp add: dispose_fields)
next
  case (Frame t)
  with assms show ?thesis by (simp add: single_flight_frame frame_fields)
qed

lemma single_flight_run:
  "single_flight s \<Longrightarrow> \<not> disposed (run g cs s) \<Longrightarrow> single_flight (run g cs s)"
proof (induction cs arbitrary: s)
  case Nil
  then show ?case by simp
next
  case (Cons c cs)
  have "\<not> disposed (step g c s)"
    using Cons.prems(2) run_disposed [of "step g c s" g cs] by auto
  with Cons show ?case by (simp add: single_flight_step)
qed

section \<open>Wheel events\<close>

text \<open>
  C9, as the specification states it, fails. The \<^verbatim>\<open>scrollBy\<close> of an intercepted wheel
  event is not always governed by \<^verbatim>\<open>wheelFriction\<close>: on a scroller made with
  \<^verbatim>\<open>wheelFriction: 0\<close> the event is intercepted and the friction in effect afterwards is
  the instance default 0.2. And a wheel event that arrives exactly 300 ms after a foreign
  one, which the module's listener recorded at time 1000, is intercepted.
\<close>

theorem wheel_default_friction_counterexample:
  "self_wheelFriction
     (makeScroller example_element
        (no_options\<lparr>doHandleWheel := Some True, wheelFrictionOption := Some (Fin 0)\<rparr>) 0) = Fin 0
   \<and> defaultPrevented (fst (handleWheel 1000 example_wheel example_globals
        (makeScroller example_element
           (no_options\<lparr>doHandleWheel := Some True, wheelFrictionOption := Some (Fin 0)\<rparr>) 0)))
   \<and> friction (snd (snd (handleWheel 1000 example_wheel example_globals
        (makeScroller example_element
           (no_options\<lparr>doHandleWheel := Some True, wheelFrictionOption := Some (Fin 0)\<rparr>) 0))))
       = Fin 0.2
   \<and> lastGlobalWheel (window_wheel 1000 foreign_wheel example_globals) = 1000
   \<and> defaultPrevented (fst (dispatch_wheel 1300 1300 example_wheel
        (window_wheel 1000 foreign_wheel example_globals)
        (makeScroller example_element (no_options\<lparr>doHandleWheel := Some True\<rparr>) 0)))"
  by (simp add: handleWheel_def dispatch_wheel_def window_wheel_def scrollBy_fields
      makeScroller_def no_options_def example_globals_def example_wheel_def foreign_wheel_def
      truthy_def Let_def)

text \<open>
  C9, amended: the module's listener records the time of every wheel event but the one a
  scroller has just intercepted. After it has recorded a foreign event at time \<open>t0\<close>, a
  new wheel event dispatched on an element whose scroller handles the wheel is left
  alone when it arrives less than 300 ms later: the event, the scroller and so its
  motion are unchanged, and the module's listener records the event in its turn. When it
  arrives 300 ms later or more, it is intercepted: its default is prevented, the
  module's listener does not record it, and \<^verbatim>\<open>scrollBy\<close> is applied with the event's
  deltas, swapped when \<^verbatim>\<open>flipWheel\<close> is set, added onto the pending velocity; the friction
  in effect becomes \<^verbatim>\<open>wheelFriction\<close>, or the instance default when \<^verbatim>\<open>wheelFriction\<close> is 0
  or \<^verbatim>\<open>NaN\<close>.
\<close>

theorem wheel_interception:
  assumes "wheel_bound s"
    and "ignoreEvent g0 \<noteq> Some (ev_id ev0)"
    and "ignoreEvent g0 \<noteq> Some (ev_id ev)"
  shows "lastGlobalWheel (window_wheel t0 ev0 g0) = t0
       \<and> dispatch_wheel now later ev (window_wheel t0 ev0 g0) s =
           (if now - t0 < 300
            then (ev, (window_wheel t0 ev0 g0)\<lparr>lastGlobalWheel := later\<rparr>, s)
            else (ev\<lparr>defaultPrevented := True\<rparr>,
                  (window_wheel t0 ev0 g0)\<lparr>ignoreEvent := Some (ev_id ev)\<rparr>,
                  scrollBy \<lparr>o_left = Some (if self_flipWheel s then deltaY ev else deltaX ev),
                            o_top = Some (if self_flipWheel s then deltaX ev else deltaY ev),
                            o_friction = Some (self_wheelFriction s)\<rparr> s))
       \<and> friction (scrollBy \<lparr>o_left = Some (if self_flipWheel s then deltaY ev else deltaX ev),
                            o_top = Some (if self_flipWheel s then deltaX ev else deltaY ev),
                            o_friction = Some (self_wheelFriction s)\<rparr> s) =
           (if self_wheelFriction s = NaN \<or> self_wheelFriction s = Fin 0
            then self_friction s else self_wheelFriction s)
       \<and> scrolling (scrollBy \<lparr>o_left = Some (if self_flipWheel s then deltaY ev else deltaX ev),
                            o_top = Some (if self_flipWheel s then deltaX ev else deltaY ev),
                            o_friction = Some (self_wheelFriction s)\<rparr> s) =
           Some (js_add (pendingX s) (if self_flipWheel s then deltaY ev else deltaX ev),
                 js_add (pendingY s) (if self_flipWheel s then deltaX ev else deltaY ev))"
proof -
  let ?g = "window_wheel t0 ev0 g0"
  have g: "?g = g0\<lparr>lastGlobalWheel := t0\<rparr>"
    using assms(2) by (auto simp add: window_wheel_def)
  have "dispatch_wheel now later ev ?g s =
           (if now - t0 < 300
            then (ev, ?g\<lparr>lastGlobalWheel := later\<rparr>, s)
            else (ev\<lparr>defaultPrevented := True\<rparr>, ?g\<lparr>ignoreEvent := Some (ev_id ev)\<rparr>,
                  scrollBy \<lparr>o_left = Some (if self_flipWheel s then deltaY ev else deltaX ev),
                            o_top = Some (if self_flipWheel s then deltaX ev else deltaY ev),
                            o_friction = Some (self_wheelFriction s)\<rparr> s))"
    using assms(1,3) unfolding g
    by (auto simp add: dispatch_wheel_def handleWheel_def window_wheel_def)
  then show ?thesis
    by (simp add: g scrollBy_fields truthy_def)
qed

theorem wheel_interception_witness:
  "wheel_bound (makeScroller example_element (no_options\<lparr>doHandleWheel := Some True\<rparr>) 0)
   \<and> dispatch_wheel 1299 1299 example_wheel (window_wheel 1000 foreign_wheel example_globals)
        (makeScroller example_element (no_options\<lparr>doHandleWheel := Some True\<rparr>) 0)
      = (example_wheel, \<lparr>minFrameTime = 1000 / 60, lastGlobalWheel = 1299, ignoreEvent = None\<rparr>,
         makeScroller example_element (no_options\<lparr>doHandleWheel := Some True\<rparr>) 0)
   \<and> dispatch_wheel 1300 1300 example_wheel (window_wheel 1000 foreign_wheel example_globals)
        (makeScroller example_element (no_options\<lparr>doHandleWheel := Some True\<rparr>) 0)
      = (example_wheel\<lparr>defaultPrevented := True\<rparr>,
         \<lparr>minFrameTime = 1000 / 60, lastGlobalWheel = 1000, ignoreEvent = Some 7\<rparr>,
         scrollBy \<lparr>o_left = Some (Fin 0), o_top = Some (Fin 120), o_friction = Some (Fin 0.25)\<rparr>
           (makeScroller example_element (no_options\<lparr>doHandleWheel := Some True\<rparr>) 0))
   \<and> friction (scrollBy \<lparr>o_left = Some (Fin 0), o_top = Some (Fin 120), o_friction = Some (Fin 0.25)\<rparr>
           (makeScroller example_element (no_options\<lparr>doHandleWheel := Some True\<rparr>) 0)) = Fin 0.25"
proof -
  let ?s = "makeScroller example_element (no_options\<lparr>doHandleWheel := Some True\<rparr>) 0"
  have s: "wheel_bound ?s" "self_flipWheel ?s = False" "self_wheelFriction ?s = Fin 0.25"
    by (simp_all add: makeScroller_def no_options_def Let_def)
  have g: "ignoreEvent example_globals \<noteq> Some (ev_id foreign_wheel)"
    "ignoreEvent example_globals \<noteq> Some (ev_id example_wheel)"
    by (simp_all add: example_globals_def)
  from wheel_interception [OF s(1) g, of 1000 1299 1299]
    wheel_interception [OF s(1) g, of 1000 1300 1300] s
  show ?thesis
    by (simp add: window_wheel_def example_globals_def example_wheel_def foreign_wheel_def)
qed

section \<open>Gliding with a zero vector\<close>

lemma zero_glide_frame:
  assumes "zero_glide s"
  shows "zero_glide (frame t g s)"
proof -
  from assms obtain h where h: "frameId s = Some h" "raf_queue s = [h]"
    and s: "\<not> disposed s" "gliding s = Some (Fin 0, Fin 0)"
    by (auto simp add: zero_glide_def)
  let ?s = "s\<lparr>raf_queue := []\<rparr>"
  have fr: "frame t g s = render t g ?s"
    using h by (simp add: frame_def)
  have d: "\<not> disposed ?s" using s by simp
  show ?thesis
    using s by (simp add: fr zero_glide_def render_frame [OF d] active_def)
qed

lemma zero_glide_position:
  assumes "zero_glide s" and "scrolling s = None"
  shows "currentPosition (frame t g s) =
      \<lparr>left = clamp (Fin 0) (left (currentPosition s)) (width (getScrollLength s)),
       top' = clamp (Fin 0) (top' (currentPosition s)) (height (getScrollLength s))\<rparr>"
proof -
  from assms obtain h where h: "frameId s = Some h" "raf_queue s = [h]"
    and s: "\<not> disposed s" "gliding s = Some (Fin 0, Fin 0)"
    by (auto simp add: zero_glide_def)
  let ?s = "s\<lparr>raf_queue := []\<rparr>"
  have fr: "frame t g s = render t g ?s"
    using h by (simp add: frame_def)
  have d: "\<not> disposed ?s" using s by simp
  show ?thesis
    using s assms(2)
    by (simp add: fr render_position [OF d] scrolling_block_def gliding_block_def Let_def
        getScrollLength_def)
qed

lemma zero_glide_frames: "zero_glide s \<Longrightarrow> zero_glide (run g (map Frame ts) s)"
  by (induction ts arbitrary: s) (simp_all add: zero_glide_frame)

lemma frames_scrolling_None:
  "scrolling s = None \<Longrightarrow> scrolling (run g (map Frame ts) s) = None"
  by (induction ts arbitrary: s) (simp_all add: frame_scrolling_None)

lemma glide_zero_glide:
  assumes "\<not> disposed s" and "single_flight s"
    and "o_left opts = None \<or> o_left opts = Some (Fin 0)"
    and "o_top opts = None \<or> o_top opts = Some (Fin 0)"
  shows "zero_glide (glide opts s)"
  using assms
  by (auto simp add: zero_glide_def glide_fields or_zero_def truthy_def single_flight_def
      no_frame_def split: option.splits)

text \<open>
  C10: on a scroller that is not disposed and in single flight, \<^verbatim>\<open>glide\<close> with each axis
  absent or 0 leaves the gliding vector present, as \<^verbatim>\<open>[0, 0]\<close>. After any number of frames
  that follow, at whatever times, the vector is still \<^verbatim>\<open>[0, 0]\<close> and the next frame is
  again queued; and when no scrolling motion is pending, each such frame commits the
  cached position clamped again into the scrollable length. \<^verbatim>\<open>stop()\<close> and \<^verbatim>\<open>dispose()\<close>
  clear the vector and leave no frame queued.
\<close>

theorem glide_zero_keeps_rendering:
  assumes "\<not> disposed s" and "single_flight s"
    and "o_left opts = None \<or> o_left opts = Some (Fin 0)"
    and "o_top opts = None \<or> o_top opts = Some (Fin 0)"
  shows "gliding (glide opts s) = Some (Fin 0, Fin 0)
       \<and> gliding (run g (map Frame ts) (glide opts s)) = Some (Fin 0, Fin 0)
       \<and> (\<exists>h. frameId (run g (map Frame ts) (glide opts s)) = Some h
              \<and> raf_queue (run g (map Frame ts) (glide opts s)) = [h])
       \<and> (scrolling s = None \<longrightarrow>
            currentPosition (frame t g (run g (map Frame ts) (glide opts s))) =
              \<lparr>left = clamp (Fin 0)
                        (left (currentPosition (run g (map Frame ts) (glide opts s))))
                        (width (getScrollLength s)),
               top' = clamp (Fin 0)
                        (top' (currentPosition (run g (map Frame ts) (glide opts s))))
                        (height (getScrollLength s))\<rparr>)
       \<and> gliding (stop (run g (map Frame ts) (glide opts s))) = None
       \<and> raf_queue (stop (run g (map Frame ts) (glide opts s))) = []
       \<and> gliding (dispose (run g (map Frame ts) (glide opts s))) = None
       \<and> raf_queue (dispose (run g (map Frame ts) (glide opts s))) = []"
proof -
  let ?s = "run g (map Frame ts) (glide opts s)"
  have g0: "zero_glide (glide opts s)" using assms by (rule glide_zero_glide)
  then have zg: "zero_glide ?s" by (rule zero_glide_frames)
  then obtain h where h: "frameId ?s = Some h" "raf_queue ?s = [h]"
    by (auto simp add: zero_glide_def)
  have gl: "gliding (glide opts s) = Some (Fin 0, Fin 0)" "gliding ?s = Some (Fin 0, Fin 0)"
    using g0 zg by (simp_all add: zero_glide_def)
  have len: "getScrollLength ?s = getScrollLength s"
    using run_sizes [of g "map Frame ts" "glide opts s"]
    by (simp add: getScrollLength_def glide_fields)
  have pos: "currentPosition (frame t g ?s) =
      \<lparr>left = clamp (Fin 0) (left (currentPosition ?s)) (width (getScrollLength s)),
       top' = clamp (Fin 0) (top' (currentPosition ?s)) (height (getScrollLength s))\<rparr>"
    if "scrolling s = None"
  proof -
    from that have "scrolling ?s = None"
      by (intro frames_scrolling_None) (simp add: glide_fields)
    from zero_glide_position [OF zg this, of t g] len show ?thesis by simp
  qed
  from gl h pos show ?thesis
    by (simp add: stop_fields dispose_fields)
qed

theorem glide_zero_keeps_rendering_witness:
  "\<not> disposed example_scroller \<and> single_flight example_scroller
   \<and> gliding (run example_globals (map Frame [1000, 1016, 1033])
        (glide \<lparr>o_left = None, o_top = Some (Fin 0)\<rparr> example_scroller)) = Some (Fin 0, Fin 0)
   \<and> frameId (run example_globals (map Frame [1000, 1016, 1033])
        (glide \<lparr>o_left = None, o_top = Some (Fin 0)\<rparr> example_scroller)) = Some 4
   \<and> raf_queue (run example_globals (map Frame [1000, 1016, 1033])
        (glide \<lparr>o_left = None, o_top = Some (Fin 0)\<rparr> example_scroller)) = [4]
   \<and> raf_queue (stop (run example_globals (map Frame [1000, 1016, 1033])
        (glide \<lparr>o_left = None, o_top = Some (Fin 0)\<rparr> example_scroller))) = []"
proof -
  have d: "\<not> disposed example_scroller" and sf: "single_flight example_scroller"
    by (simp_all add: single_flight_def example_scroller_fields)
  have q: "raf_queue (run example_globals (map Frame [1000, 1016, 1033])
        (glide \<lparr>o_left = None, o_top = Some (Fin 0)\<rparr> example_scroller)) = [4]"
    by (simp add: eval_defs)
  from glide_zero_keeps_rendering
         [OF d sf, of "\<lparr>o_left = None, o_top = Some (Fin 0)\<rparr>" example_globals
            "[1000, 1016, 1033]" 1050]
    d sf q
  show ?thesis by simp
qed

section \<open>The frame rule of a scrolling motion\<close>

lemma spec_adjustedFriction_eq: "spec_adjustedFriction f td = adjustedFriction f td"
  by (simp add: spec_adjustedFriction_def adjustedFriction_def STANDARD_FRAME_TIME_def Let_def)

lemma spec_next_velocity_eq: "spec_next_velocity v d p l = axis_velocity v d p l"
  by (simp add: spec_next_velocity_def axis_velocity_def isWithin_def js_ge_def)

lemma axis_velocity_fin: "is_fin (axis_velocity v (js_mul v af) p (Fin w))"
  by (cases v; cases af; cases p) (auto simp add: axis_velocity_def js_defs split: if_splits)

lemma axis_velocity_not_NaN: "axis_velocity v (js_mul v af) p (Fin w) \<noteq> NaN"
  using axis_velocity_fin [of v af p w] by (auto simp add: is_fin_conv)

text \<open>
  C3: on a frame that finds a scrolling motion \<open>(x, y)\<close> (and a scroller not disposed),
  with \<open>elapsed\<close> the time since the last frame (or the minimal frame time),
  \<open>adjustedFriction = clamp(0, friction * (elapsed / standardFrameTime), 1)\<close> and, for
  each axis, \<open>delta = velocity * adjustedFriction\<close>: the velocity of the axis after the
  frame is 0 when \<open>|delta| < 0.2\<close> or \<open>position + delta\<close> is not within \<open>[0, length]\<close>,
  and \<open>velocity - delta\<close> otherwise; the motion is cleared when both are 0; and the
  committed position of the axis is \<open>position + delta\<close> (plus the glide of the frame, if
  the scroller glides), clamped into \<open>[0, length]\<close>.
\<close>

theorem render_scrolling_rule:
  assumes "\<not> disposed s" and "scrolling s = Some (x, y)"
  shows "let elapsed = timeDelta t g s;
             af = spec_adjustedFriction (friction s) elapsed;
             xDelta = js_mul x af;
             yDelta = js_mul y af;
             l = left (currentPosition s);
             tp = top' (currentPosition s);
             w = width (getScrollLength s);
             h = height (getScrollLength s);
             x1 = spec_next_velocity x xDelta l w;
             y1 = spec_next_velocity y yDelta tp h
         in scrolling (render t g s) = (if x1 = Fin 0 \<and> y1 = Fin 0 then None else Some (x1, y1))
            \<and> pendingX (render t g s) = x1
            \<and> pendingY (render t g s) = y1
            \<and> currentPosition (render t g s) =
                (case gliding s of
                   None \<Rightarrow> \<lparr>left = clamp (Fin 0) (js_add l xDelta) w,
                             top' = clamp (Fin 0) (js_add tp yDelta) h\<rparr>
                 | Some (gx, gy) \<Rightarrow>
                     \<lparr>left = clamp (Fin 0)
                        (js_add l (js_add xDelta (js_mul gx (Fin (elapsed / 1000))))) w,
                      top' = clamp (Fin 0)
                        (js_add tp (js_add yDelta (js_mul gy (Fin (elapsed / 1000))))) h\<rparr>)"
proof -
  let ?td = "timeDelta t g s"
  let ?af = "adjustedFriction (friction s) ?td"
  let ?l = "left (currentPosition s)" and ?tp = "top' (currentPosition s)"
  let ?w = "width (getScrollLength s)" and ?h = "height (getScrollLength s)"
  let ?x1 = "axis_velocity x (js_mul x ?af) ?l ?w"
  let ?y1 = "axis_velocity y (js_mul y ?af) ?tp ?h"
  have nx: "?x1 \<noteq> NaN" and ny: "?y1 \<noteq> NaN"
    by (simp_all add: getScrollLength_def axis_velocity_not_NaN)
  have sc: "scrolling (render t g s) =
              (if ?x1 = Fin 0 \<and> ?y1 = Fin 0 then None else Some (?x1, ?y1))"
    using assms nx ny by (simp add: render_scrolling scrolling_block_def Let_def js_eq_def)
  have px: "pendingX (render t g s) = ?x1" and py: "pendingY (render t g s) = ?y1"
    using nx ny by (auto simp add: pendingX_def pendingY_def sc or_zero_def truthy_def)
  have pos: "currentPosition (render t g s) =
       (case gliding s of
          None \<Rightarrow> \<lparr>left = clamp (Fin 0) (js_add ?l (js_mul x ?af)) ?w,
                    top' = clamp (Fin 0) (js_add ?tp (js_mul y ?af)) ?h\<rparr>
        | Some (gx, gy) \<Rightarrow>
           \<lparr>left = clamp (Fin 0)
                (js_add ?l (js_add (js_mul x ?af) (js_mul gx (Fin (?td / 1000))))) ?w,
             top' = clamp (Fin 0)
                (js_add ?tp (js_add (js_mul y ?af) (js_mul gy (Fin (?td / 1000))))) ?h\<rparr>)"
    using assms
    by (simp add: render_position scrolling_block_def gliding_block_def Let_def
        split: option.splits)
  show ?thesis
    unfolding Let_def spec_adjustedFriction_eq spec_next_velocity_eq
    using sc px py pos by simp
qed

theorem render_scrolling_rule_witness:
  "\<not> disposed (scrollBy \<lparr>o_left = Some (Fin 100), o_top = None, o_friction = None\<rparr>
       example_scroller)
   \<and> scrolling (scrollBy \<lparr>o_left = Some (Fin 100), o_top = None, o_friction = None\<rparr>
       example_scroller) = Some (Fin 100, Fin 0)
   \<and> scrolling (render 1000 example_globals
       (scrollBy \<lparr>o_left = Some (Fin 100), o_top = None, o_friction = None\<rparr>
          example_scroller)) = Some (Fin 80, Fin 0)
   \<and> currentPosition (render 1000 example_globals
       (scrollBy \<lparr>o_left = Some (Fin 100), o_top = None, o_friction = None\<rparr>
          example_scroller)) = \<lparr>left = Fin 519, top' = Fin 0\<rparr>"
proof -
  let ?s = "scrollBy \<lparr>o_left = Some (Fin 100), o_top = None, o_friction = None\<rparr>
              example_scroller"
  have d: "\<not> disposed ?s"
    by (simp add: scrollBy_fields example_scroller_fields)
  have sc: "scrolling ?s = Some (Fin 100, Fin 0)"
    by (simp add: scrollBy_fields example_scroller_fields pendingX_def pendingY_def or_zero_def)
  have st: "timeDelta 1000 example_globals ?s = 1000 / 60" "friction ?s = Fin 0.2"
    "currentPosition ?s = \<lparr>left = Fin 499, top' = Fin 0\<rparr>" "gliding ?s = None"
    "getScrollLength ?s = \<lparr>width = Fin 1000, height = Fin 500\<rparr>"
    by (simp_all add: timeDelta_def scrollBy_fields example_scroller_fields example_globals_def
        getScrollLength_def example_element_def)
  from render_scrolling_rule [OF d sc, of 1000 example_globals] d sc
  show ?thesis
    by (simp add: st Let_def spec_adjustedFriction_def spec_next_velocity_def js_defs)
qed

section \<open>Scrolling to a coordinate\<close>

lemma pending_idem:
  "or_zero (Some (pendingX s)) = pendingX s" "or_zero (Some (pendingY s)) = pendingY s"
  by (auto simp add: pendingX_def pendingY_def or_zero_def split: option.splits)

lemma scrollTo_scrolling:
  "scrolling (scrollTo opts s) =
     Some (js_add (pendingX s)
             (spec_delta (o_left opts) (width (getScrollLength s)) (left (currentPosition s))
                (pendingX s)),
           js_add (pendingY s)
             (spec_delta (o_top opts) (height (getScrollLength s)) (top' (currentPosition s))
                (pendingY s)))"
  by (simp add: scrollTo_def scrollBy_fields Let_def spec_delta_def)

lemma scrollTo_length: "getScrollLength (scrollTo opts s) = getScrollLength s"
  by (simp add: getScrollLength_def scrollTo_fields)

lemma scrollTo_friction:
  "friction (scrollTo opts s) =
     (case o_friction opts of None \<Rightarrow> self_friction s
      | Some a \<Rightarrow> if truthy a then a else self_friction s)"
  by (simp add: scrollTo_def scrollBy_fields Let_def)

lemma render_pendingX:
  assumes "\<not> disposed s" and "scrolling s = Some (x, y)"
  shows "pendingX (render t g s) =
           axis_velocity x (js_mul x (adjustedFriction (friction s) (timeDelta t g s)))
             (left (currentPosition s)) (width (getScrollLength s))"
proof -
  let ?af = "adjustedFriction (friction s) (timeDelta t g s)"
  let ?x1 = "axis_velocity x (js_mul x ?af) (left (currentPosition s)) (width (getScrollLength s))"
  have "?x1 \<noteq> NaN"
    by (simp add: getScrollLength_def axis_velocity_not_NaN)
  then show ?thesis
    using assms
    by (auto simp add: pendingX_def render_scrolling scrolling_block_def Let_def js_eq_def
        or_zero_def truthy_def)
qed

lemma ending_frame:
  assumes "\<not> disposed s" and "gliding s = None" and "scrolling s = Some (x, y)"
    and "js_lt (js_abs (js_mul x (adjustedFriction (friction s) (timeDelta t g s)))) (Fin 0.2)"
  shows "pendingX (render t g s) = Fin 0
       \<and> left (currentPosition (render t g s)) =
           clamp (Fin 0)
             (js_add (left (currentPosition s))
                (js_mul x (adjustedFriction (friction s) (timeDelta t g s))))
             (width (getScrollLength s))"
  using assms
  by (simp add: render_pendingX axis_velocity_def render_position scrolling_block_def
      gliding_block_def Let_def)

text \<open>
  C1, as the specification states it, fails. On the example element (cached position
  499, 1000 scrollable pixels), \<^verbatim>\<open>scrollTo({left: 300, friction: 0.5})\<close> at once followed
  by \<^verbatim>\<open>scrollTo({left: 500, friction: 0.5})\<close> leaves the velocity 1. Three frames, one
  standard frame time apart, move the position by 0.5, by 0.25 and by 0.125; the third
  ends the motion, since \<open>0.125 < 0.2\<close>: no motion is left, no frame is queued, and the
  position is 499.875, not \<open>clamp(0, 500, 1000) = 500\<close>. (Every position, velocity and
  delta of this run is a binary fraction, and every time delta is the standard frame
  time, so the run is the same in floating-point arithmetic.) And with an
  infinite pending velocity, after \<^verbatim>\<open>scrollBy({left: Infinity})\<close>, \<^verbatim>\<open>scrollTo({left: 500})\<close>
  leaves the velocity \<^verbatim>\<open>NaN\<close>.
\<close>

theorem scrollTo_settles_short:
  "scrolling (run example_globals
       [ScrollTo \<lparr>o_left = Some (Fin 300), o_top = None, o_friction = Some (Fin (1 / 2))\<rparr>,
        ScrollTo \<lparr>o_left = Some (Fin 500), o_top = None, o_friction = Some (Fin (1 / 2))\<rparr>]
       example_scroller) = Some (Fin 1, Fin 0)
   \<and> scrolling (run example_globals
       [ScrollTo \<lparr>o_left = Some (Fin 300), o_top = None, o_friction = Some (Fin (1 / 2))\<rparr>,
        ScrollTo \<lparr>o_left = Some (Fin 500), o_top = None, o_friction = Some (Fin (1 / 2))\<rparr>,
        Frame 0, Frame (1000 / 60), Frame (2000 / 60)] example_scroller) = None
   \<and> raf_queue (run example_globals
       [ScrollTo \<lparr>o_left = Some (Fin 300), o_top = None, o_friction = Some (Fin (1 / 2))\<rparr>,
        ScrollTo \<lparr>o_left = Some (Fin 500), o_top = None, o_friction = Some (Fin (1 / 2))\<rparr>,
        Frame 0, Frame (1000 / 60), Frame (2000 / 60)] example_scroller) = []
   \<and> left (currentPosition (run example_globals
       [ScrollTo \<lparr>o_left = Some (Fin 300), o_top = None, o_friction = Some (Fin (1 / 2))\<rparr>,
        ScrollTo \<lparr>o_left = Some (Fin 500), o_top = None, o_friction = Some (Fin (1 / 2))\<rparr>,
        Frame 0, Frame (1000 / 60), Frame (2000 / 60)] example_scroller)) = Fin 499.875
   \<and> clamp (Fin 0) (Fin 500) (width (getScrollLength example_scroller)) = Fin 500
   \<and> scrolling (run example_globals
       [ScrollBy \<lparr>o_left = Some PInf, o_top = None, o_friction = None\<rparr>,
        ScrollTo \<lparr>o_left = Some (Fin 500), o_top = None, o_friction = None\<rparr>]
       example_scroller) = Some (NaN, Fin 0)"
  by (simp add: eval_defs)

text \<open>
  C1, amended: on every scroller, \<^verbatim>\<open>scrollTo\<close> computes for each axis the delta velocity
  \<open>clamp(0, target, length) - (cached position + pending velocity)\<close>, and 0 for an axis
  that is omitted, and adds it onto the pending velocity of the axis; an omitted axis
  keeps its pending velocity, the cached position and the glide are untouched, and the
  friction in effect is set as \<^verbatim>\<open>scrollBy\<close> sets it. A second \<^verbatim>\<open>scrollTo\<close> at once after
  the first computes its delta against the velocity the first has left pending, from
  the same cached position. And the position does not come to rest at the target: on a
  scroller that does not glide, the frame whose delta on the axis is below 0.2 leaves no
  velocity on the axis and commits the cached position plus that delta, clamped.
\<close>

theorem scrollTo_delta_composition:
  "scrolling (scrollTo opts s) =
     Some (js_add (pendingX s)
             (spec_delta (o_left opts) (width (getScrollLength s)) (left (currentPosition s))
                (pendingX s)),
           js_add (pendingY s)
             (spec_delta (o_top opts) (height (getScrollLength s)) (top' (currentPosition s))
                (pendingY s)))
   \<and> scrolling (scrollTo opts2 (scrollTo opts s)) =
     Some (js_add (pendingX (scrollTo opts s))
             (spec_delta (o_left opts2) (width (getScrollLength s)) (left (currentPosition s))
                (pendingX (scrollTo opts s))),
           js_add (pendingY (scrollTo opts s))
             (spec_delta (o_top opts2) (height (getScrollLength s)) (top' (currentPosition s))
                (pendingY (scrollTo opts s))))
   \<and> (o_left opts = None \<longrightarrow> pendingX (scrollTo opts s) = pendingX s)
   \<and> (o_top opts = None \<longrightarrow> pendingY (scrollTo opts s) = pendingY s)
   \<and> currentPosition (scrollTo opts s) = currentPosition s
   \<and> gliding (scrollTo opts s) = gliding s
   \<and> friction (scrollTo opts s) =
       (case o_friction opts of None \<Rightarrow> self_friction s
        | Some a \<Rightarrow> if a = NaN \<or> a = Fin 0 then self_friction s else a)
   \<and> (\<not> disposed s' \<and> gliding s' = None \<and> scrolling s' = Some (x, y)
        \<and> js_lt (js_abs (js_mul x (adjustedFriction (friction s') (timeDelta t g s')))) (Fin 0.2)
       \<longrightarrow> pendingX (render t g s') = Fin 0
           \<and> left (currentPosition (render t g s')) =
               clamp (Fin 0)
                 (js_add (left (currentPosition s'))
                    (js_mul x (adjustedFriction (friction s') (timeDelta t g s'))))
                 (width (getScrollLength s')))"
proof -
  have "o_left opts = None \<longrightarrow> pendingX (scrollTo opts s) = pendingX s"
    "o_top opts = None \<longrightarrow> pendingY (scrollTo opts s) = pendingY s"
    using pending_idem [of s]
    by (simp_all add: pendingX_def [of "scrollTo opts s"] pendingY_def [of "scrollTo opts s"]
        scrollTo_scrolling spec_delta_def)
  moreover have "friction (scrollTo opts s) =
       (case o_friction opts of None \<Rightarrow> self_friction s
        | Some a \<Rightarrow> if a = NaN \<or> a = Fin 0 then self_friction s else a)"
    by (simp add: scrollTo_friction truthy_def split: option.splits)
  moreover note scrollTo_scrolling [of opts s] scrollTo_scrolling [of opts2 "scrollTo opts s"]
    ending_frame [of s' x y t g]
  ultimately show ?thesis
    by (simp add: scrollTo_length scrollTo_fields)
qed

theorem scrollTo_delta_composition_witness:
  "scrolling (scrollTo \<lparr>o_left = Some (Fin 500), o_top = None, o_friction = Some (Fin (1 / 2))\<rparr>
      (scrollTo \<lparr>o_left = Some (Fin 300), o_top = None, o_friction = Some (Fin (1 / 2))\<rparr>
         example_scroller))
     = Some (Fin 1, Fin 0)
   \<and> \<not> disposed (run example_globals
       [ScrollTo \<lparr>o_left = Some (Fin 300), o_top = None, o_friction = Some (Fin (1 / 2))\<rparr>,
        ScrollTo \<lparr>o_left = Some (Fin 500), o_top = None, o_friction = Some (Fin (1 / 2))\<rparr>,
        Frame 0, Frame (1000 / 60)] example_scroller)
   \<and> scrolling (run example_globals
       [ScrollTo \<lparr>o_left = Some (Fin 300), o_top = None, o_friction = Some (Fin (1 / 2))\<rparr>,
        ScrollTo \<lparr>o_left = Some (Fin 500), o_top = None, o_friction = Some (Fin (1 / 2))\<rparr>,
        Frame 0, Frame (1000 / 60)] example_scroller) = Some (Fin 0.25, Fin 0)
   \<and> pendingX (render (2000 / 60) example_globals (run example_globals
       [ScrollTo \<lparr>o_left = Some (Fin 300), o_top = None, o_friction = Some (Fin (1 / 2))\<rparr>,
        ScrollTo \<lparr>o_left = Some (Fin 500), o_top = None, o_friction = Some (Fin (1 / 2))\<rparr>,
        Frame 0, Frame (1000 / 60)] example_scroller)) = Fin 0
   \<and> left (currentPosition (render (2000 / 60) example_globals (run example_globals
       [ScrollTo \<lparr>o_left = Some (Fin 300), o_top = None, o_friction = Some (Fin (1 / 2))\<rparr>,
        ScrollTo \<lparr>o_left = Some (Fin 500), o_top = None, o_friction = Some (Fin (1 / 2))\<rparr>,
        Frame 0, Frame (1000 / 60)] example_scroller))) = Fin 499.875"
proof -
  let ?o3 = "\<lparr>o_left = Some (Fin 300), o_top = None, o_friction = Some (Fin (1 / 2))\<rparr>"
  let ?o5 = "\<lparr>o_left = Some (Fin 500), o_top = None, o_friction = Some (Fin (1 / 2))\<rparr>"
  let ?s = "run example_globals [ScrollTo ?o3, ScrollTo ?o5, Frame 0, Frame (1000 / 60)]
              example_scroller"
  let ?t = "2000 / 60 :: real"
  have st: "\<not> disposed ?s" "gliding ?s = None" "scrolling ?s = Some (Fin 0.25, Fin 0)"
    "friction ?s = Fin (1 / 2)" "timeDelta ?t example_globals ?s = 1000 / 60"
    "left (currentPosition ?s) = Fin 499.75" "width (getScrollLength ?s) = Fin 1000"
    by (simp_all add: eval_defs)
  have pend: "pendingX example_scroller = Fin 0" "pendingY example_scroller = Fin 0"
    "pendingX (scrollTo ?o3 example_scroller) = Fin (- 199)"
    "pendingY (scrollTo ?o3 example_scroller) = Fin 0"
    by (simp_all add: eval_defs)
  from scrollTo_delta_composition
         [of ?o3 example_scroller ?o5 ?s "Fin 0.25" "Fin 0" ?t example_globals] st
  have "scrolling (scrollTo ?o5 (scrollTo ?o3 example_scroller)) = Some (Fin 1, Fin 0)
      \<and> pendingX (render ?t example_globals ?s) = Fin 0
      \<and> left (currentPosition (render ?t example_globals ?s)) = Fin 499.875"
    by (simp add: pend spec_delta_def example_scroller_fields getScrollLength_def
        example_element_def adjustedFriction_def STANDARD_FRAME_TIME_def Let_def js_defs)
  with st show ?thesis by simp
qed

section \<open>The committed position stays in range\<close>

lemma clamp_NaN_or_within:
  assumes "0 \<le> w"
  shows "clamp (Fin 0) v (Fin w) = NaN \<or> isWithin (Fin 0) (clamp (Fin 0) v (Fin w)) (Fin w)"
  using assms by (cases v) (auto simp add: js_defs)

lemma clamp_NaN_iff: "clamp (Fin 0) v (Fin w) = NaN \<longleftrightarrow> v = NaN"
  by (cases v) (auto simp add: js_defs)

lemma clamp_infinity: "0 \<le> w \<Longrightarrow> clamp (Fin 0) PInf (Fin w) = Fin w"
  by (auto simp add: js_defs)

lemma run_length: "getScrollLength (run g cs s) = getScrollLength s"
  using run_sizes [of g cs s] by (simp add: getScrollLength_def)

text \<open>
  C2, as the specification states it, fails twice. \<^verbatim>\<open>scrollTo({left: Infinity})\<close> does not
  settle exactly at \<open>width\<close>: from the cached position 999 of 1000 scrollable pixels,
  with the friction 0.5, the velocity is 1 and the motion ends after three frames, with
  no frame queued, at 999.875 (the positions, velocities and deltas of this run are
  binary fractions, the same in floating-point arithmetic). And not
  every sequence of operations keeps the position in range: after
  \<^verbatim>\<open>scrollBy({left: NaN})\<close> the first frame commits the position \<^verbatim>\<open>NaN\<close>, which is not
  within \<open>[0, 1000]\<close>.
\<close>

theorem position_counterexample:
  "scrolling (run example_globals
       [ScrollTo \<lparr>o_left = Some PInf, o_top = None, o_friction = Some (Fin (1 / 2))\<rparr>,
        Frame 0, Frame (1000 / 60), Frame (2000 / 60)]
       (makeScroller (example_element\<lparr>scrollLeft := Fin 999\<rparr>) no_options 0)) = None
   \<and> raf_queue (run example_globals
       [ScrollTo \<lparr>o_left = Some PInf, o_top = None, o_friction = Some (Fin (1 / 2))\<rparr>,
        Frame 0, Frame (1000 / 60), Frame (2000 / 60)]
       (makeScroller (example_element\<lparr>scrollLeft := Fin 999\<rparr>) no_options 0)) = []
   \<and> currentPosition (run example_globals
       [ScrollTo \<lparr>o_left = Some PInf, o_top = None, o_friction = Some (Fin (1 / 2))\<rparr>,
        Frame 0, Frame (1000 / 60), Frame (2000 / 60)]
       (makeScroller (example_element\<lparr>scrollLeft := Fin 999\<rparr>) no_options 0))
     = \<lparr>left = Fin 999.875, top' = Fin 0\<rparr>
   \<and> width (getScrollLength
       (makeScroller (example_element\<lparr>scrollLeft := Fin 999\<rparr>) no_options 0)) = Fin 1000
   \<and> left (currentPosition (run example_globals
       [ScrollBy \<lparr>o_left = Some NaN, o_top = None, o_friction = None\<rparr>, Frame 1000]
       example_scroller)) = NaN
   \<and> \<not> isWithin (Fin 0) NaN (width (getScrollLength example_scroller))"
  by (simp add: eval_defs)

text \<open>
  C2, amended: on an element whose scrollable lengths are not negative, after any
  sequence of public calls and frames, whatever their arguments, a frame rendered on
  the scroller (not disposed) commits on each axis a position that is \<^verbatim>\<open>NaN\<close> or lies
  within \<open>[0, scrollableLength]\<close>, and writes it to the element; it is \<^verbatim>\<open>NaN\<close> exactly
  when the cached position plus what the frame adds to it is \<^verbatim>\<open>NaN\<close>. So a committed
  position is never beyond the scrollable length, and the target \<^verbatim>\<open>Infinity\<close> is
  resolved to \<open>width\<close>: \<open>clamp(0, Infinity, width) = width\<close>. (That the motion comes to
  rest exactly at \<open>width\<close> is not stated.)
\<close>

theorem committed_position_NaN_or_in_range:
  assumes "clientWidth (el s) \<le> scrollWidth (el s)"
    and "clientHeight (el s) \<le> scrollHeight (el s)"
    and "\<not> disposed (run g cs s)"
  shows "(left (currentPosition (render t g (run g cs s))) = NaN
          \<or> isWithin (Fin 0) (left (currentPosition (render t g (run g cs s))))
               (width (getScrollLength s)))
       \<and> (top' (currentPosition (render t g (run g cs s))) = NaN
          \<or> isWithin (Fin 0) (top' (currentPosition (render t g (run g cs s))))
               (height (getScrollLength s)))
       \<and> (left (currentPosition (render t g (run g cs s))) = NaN) =
           (js_add (left (currentPosition (run g cs s)))
              (fst (gliding_block (timeDelta t g (run g cs s)) (run g cs s)
                 (snd (scrolling_block (timeDelta t g (run g cs s)) (run g cs s))))) = NaN)
       \<and> (top' (currentPosition (render t g (run g cs s))) = NaN) =
           (js_add (top' (currentPosition (run g cs s)))
              (snd (gliding_block (timeDelta t g (run g cs s)) (run g cs s)
                 (snd (scrolling_block (timeDelta t g (run g cs s)) (run g cs s))))) = NaN)
       \<and> scrollLeft (el (render t g (run g cs s)))
           = left (currentPosition (render t g (run g cs s)))
       \<and> scrollTop (el (render t g (run g cs s)))
           = top' (currentPosition (render t g (run g cs s)))
       \<and> clamp (Fin 0) PInf (width (getScrollLength s)) = width (getScrollLength s)"
proof -
  let ?s = "run g cs s"
  let ?w = "scrollWidth (el s) - clientWidth (el s)"
  let ?h = "scrollHeight (el s) - clientHeight (el s)"
  have len: "getScrollLength ?s = \<lparr>width = Fin ?w, height = Fin ?h\<rparr>"
    "getScrollLength s = \<lparr>width = Fin ?w, height = Fin ?h\<rparr>"
    by (simp_all add: run_length) (simp_all add: getScrollLength_def)
  have w: "0 \<le> ?w" "0 \<le> ?h" using assms(1,2) by simp_all
  from render_el [OF assms(3), of t g]
  have written: "scrollLeft (el (render t g ?s)) = left (currentPosition (render t g ?s))"
    "scrollTop (el (render t g ?s)) = top' (currentPosition (render t g ?s))"
    by simp_all
  show ?thesis
    using clamp_NaN_or_within [OF w(1)] clamp_NaN_or_within [OF w(2)] clamp_infinity [OF w(1)]
    by (simp add: written render_position [OF assms(3)] Let_def len clamp_NaN_iff)
qed

theorem committed_position_NaN_or_in_range_witness:
  "\<not> disposed (run example_globals
       [ScrollBy \<lparr>o_left = Some (Fin 5000), o_top = Some (Fin (- 70)), o_friction = None\<rparr>]
       example_scroller)
   \<and> currentPosition (render 1000 example_globals
        (run example_globals
           [ScrollBy \<lparr>o_left = Some (Fin 5000), o_top = Some (Fin (- 70)), o_friction = None\<rparr>]
           example_scroller)) = \<lparr>left = Fin 1000, top' = Fin 0\<rparr>
   \<and> isWithin (Fin 0)
       (left (currentPosition (render 1000 example_globals
          (run example_globals
             [ScrollBy \<lparr>o_left = Some (Fin 5000), o_top = Some (Fin (- 70)), o_friction = None\<rparr>]
             example_scroller))))
       (Fin 1000)
   \<and> isWithin (Fin 0)
       (top' (currentPosition (render 1000 example_globals
          (run example_globals
             [ScrollBy \<lparr>o_left = Some (Fin 5000), o_top = Some (Fin (- 70)), o_friction = None\<rparr>]
             example_scroller))))
       (Fin 500)"
proof -
  let ?cs = "[ScrollBy \<lparr>o_left = Some (Fin 5000), o_top = Some (Fin (- 70)), o_friction = None\<rparr>]"
  have sizes: "clientWidth (el example_scroller) \<le> scrollWidth (el example_scroller)"
    "clientHeight (el example_scroller) \<le> scrollHeight (el example_scroller)"
    by (simp_all add: example_scroller_fields example_element_def)
  have d: "\<not> disposed (run example_globals ?cs example_scroller)"
    by (simp add: scrollBy_fields example_scroller_fields)
  have pos: "currentPosition (render 1000 example_globals (run example_globals ?cs example_scroller))
      = \<lparr>left = Fin 1000, top' = Fin 0\<rparr>"
    by (simp add: eval_defs)
  have len: "getScrollLength example_scroller = \<lparr>width = Fin 1000, height = Fin 500\<rparr>"
    by (simp add: getScrollLength_def example_scroller_fields example_element_def)
  from committed_position_NaN_or_in_range [OF sizes d, of 1000] d pos
  show ?thesis
    by (simp add: len)
qed

section \<open>Friction 0\<close>

lemma adjustedFriction_zero: "adjustedFriction (Fin 0) td = Fin 0"
  by (simp add: adjustedFriction_def Let_def js_defs)

lemma axis_velocity_zero_friction: "axis_velocity v (js_mul v (Fin 0)) p w = Fin 0"
  by (cases v) (simp_all add: axis_velocity_def js_defs)

text \<open>With the friction 0 in effect, the first frame clears whatever motion it finds.\<close>

lemma zero_friction_ends_motion:
  assumes "\<not> disposed s" and "friction s = Fin 0"
  shows "scrolling (render t g s) = None"
  using assms
  by (simp add: render_scrolling scrolling_block_def Let_def adjustedFriction_zero
      axis_velocity_zero_friction js_eq_def split: option.splits prod.splits)

text \<open>
  C6, the code at friction 0: on a scroller made with the option \<^verbatim>\<open>friction: 0\<close>,
  \<^verbatim>\<open>scrollBy({left: 100})\<close> starts a motion of velocity 100 with the friction 0 in effect,
  and the first rendered frame completes it: the motion is cleared, no frame is queued,
  and the position is where it was. The motion does not go on for ever, as the
  specification and the documentation of the option (\<open>0 means infinite\<close>) have it: each
  delta is \<open>100 * 0 = 0\<close>, which is below the cut-off of 0.2.
\<close>

theorem zero_friction_motion_completes:
  "friction (scrollBy \<lparr>o_left = Some (Fin 100), o_top = None, o_friction = None\<rparr>
      (makeScroller example_element (no_options\<lparr>frictionOption := Some (Fin 0)\<rparr>) 0)) = Fin 0
   \<and> scrolling (scrollBy \<lparr>o_left = Some (Fin 100), o_top = None, o_friction = None\<rparr>
      (makeScroller example_element (no_options\<lparr>frictionOption := Some (Fin 0)\<rparr>) 0))
      = Some (Fin 100, Fin 0)
   \<and> scrolling (run example_globals
       [ScrollBy \<lparr>o_left = Some (Fin 100), o_top = None, o_friction = None\<rparr>, Frame 1000]
       (makeScroller example_element (no_options\<lparr>frictionOption := Some (Fin 0)\<rparr>) 0)) = None
   \<and> raf_queue (run example_globals
       [ScrollBy \<lparr>o_left = Some (Fin 100), o_top = None, o_friction = None\<rparr>, Frame 1000]
       (makeScroller example_element (no_options\<lparr>frictionOption := Some (Fin 0)\<rparr>) 0)) = []
   \<and> currentPosition (run example_globals
       [ScrollBy \<lparr>o_left = Some (Fin 100), o_top = None, o_friction = None\<rparr>, Frame 1000]
       (makeScroller example_element (no_options\<lparr>frictionOption := Some (Fin 0)\<rparr>) 0))
      = \<lparr>left = Fin 499, top' = Fin 0\<rparr>"
  by (simp add: eval_defs)

section \<open>A scrolling motion ends\<close>

lemma decay_bound:
  fixes f M :: real
  assumes "0 < f" and "f < 1" and "0 \<le> M" and "5 * M \<le> real k"
  shows "M * (1 - f) ^ k * f < 1 / 5"
proof -
  have q: "0 < (1 - f) ^ k" using assms by simp
  have "1 + real k * f \<le> (1 + f) ^ k"
    using Bernoulli_inequality [of f k] assms by simp
  then have "(1 - f) ^ k * (1 + real k * f) \<le> (1 - f) ^ k * (1 + f) ^ k"
    using q by (simp add: mult_left_mono)
  also have "\<dots> = ((1 - f) * (1 + f)) ^ k" by (simp add: power_mult_distrib)
  also have "\<dots> \<le> 1"
  proof (rule power_le_one)
    show "0 \<le> (1 - f) * (1 + f)" using assms by simp
    have "(1 - f) * (1 + f) = 1 - f * f" by (simp add: algebra_simps)
    also have "\<dots> \<le> 1" using assms by simp
    finally show "(1 - f) * (1 + f) \<le> 1" .
  qed
  finally have u: "(1 - f) ^ k * (1 + real k * f) \<le> 1" .
  have "5 * M * f \<le> real k * f" using assms by (simp add: mult_right_mono)
  then have "5 * M * f < 1 + real k * f" by simp
  then have "(1 - f) ^ k * (5 * M * f) < (1 - f) ^ k * (1 + real k * f)"
    using q by (simp only: mult_less_cancel_left_pos)
  with u have "(1 - f) ^ k * (5 * M * f) < 1" by simp
  then show ?thesis by (simp add: algebra_simps)
qed

lemma adjustedFriction_standard:
  assumes "0 < f" and "f < 1"
  shows "adjustedFriction (Fin f) STANDARD_FRAME_TIME = Fin f"
  using assms by (simp add: adjustedFriction_def Let_def STANDARD_FRAME_TIME_def js_defs)

lemma adjustedFriction_unit:
  "\<exists>c. adjustedFriction (Fin f) td = Fin c \<and> 0 \<le> c \<and> c \<le> 1"
  by (auto simp add: adjustedFriction_def Let_def js_defs)

text \<open>One axis under an adjusted friction between 0 and 1: the velocity does not grow.\<close>

lemma axis_velocity_shrinks:
  assumes "0 \<le> c" and "c \<le> 1"
  shows "\<exists>a. axis_velocity v (js_mul v (Fin c)) p (Fin w) = Fin a \<and> \<bar>a\<bar> \<le> magnitude v"
proof (cases v)
  case (Fin r)
  have "r - r * c = r * (1 - c)" by (simp add: algebra_simps)
  then have "\<bar>r - r * c\<bar> = \<bar>r\<bar> * (1 - c)"
    using assms by (simp add: abs_mult)
  also have "\<dots> \<le> \<bar>r\<bar>" using assms by (simp add: mult_left_le)
  finally show ?thesis
    using Fin by (simp add: axis_velocity_def magnitude_def js_sub_def)
next
  case PInf
  then show ?thesis
    by (cases p) (auto simp add: axis_velocity_def magnitude_def js_defs)
next
  case NInf
  then show ?thesis
    by (cases p) (auto simp add: axis_velocity_def magnitude_def js_defs)
next
  case NaN
  then show ?thesis
    by (simp add: axis_velocity_def magnitude_def js_defs)
qed

text \<open>
  One axis on a standard frame under a friction \<open>f\<close> between 0 and 1: a velocity of size
  at most \<open>B\<close> becomes one of size at most \<open>B * (1 - f)\<close>, and 0 once \<open>B * f < 0.2\<close>.
\<close>

lemma axis_velocity_decays:
  assumes "0 < f" and "f < 1" and "\<bar>r\<bar> \<le> B"
  shows "\<exists>a. axis_velocity (Fin r) (js_mul (Fin r) (Fin f)) p (Fin w) = Fin a
             \<and> \<bar>a\<bar> \<le> B * (1 - f) \<and> (B * f < 1 / 5 \<longrightarrow> a = 0)"
proof -
  have "r - r * f = r * (1 - f)" by (simp add: algebra_simps)
  then have "\<bar>r - r * f\<bar> = \<bar>r\<bar> * (1 - f)"
    using assms by (simp add: abs_mult)
  also have "\<dots> \<le> B * (1 - f)" using assms by (simp add: mult_right_mono)
  finally have 1: "\<bar>r - r * f\<bar> \<le> B * (1 - f)" .
  have 2: "0 \<le> B * (1 - f)" using assms by simp
  have "\<bar>r * f\<bar> = \<bar>r\<bar> * f" using assms by (simp add: abs_mult)
  also have "\<dots> \<le> B * f" using assms by (simp add: mult_right_mono)
  finally have 3: "B * f < 1 / 5 \<Longrightarrow> \<bar>r * f\<bar> < 2 / 10" by simp
  show ?thesis
    using 1 2 3 by (auto simp add: axis_velocity_def js_sub_def)
qed

lemma standard_frames_scrolling_None:
  "scrolling s = None \<Longrightarrow> scrolling (standard_frames n t g s) = None"
  by (induction n arbitrary: t s) (simp_all add: frame_scrolling_None)

lemma standard_frames_add:
  "standard_frames (m + n) t g s =
     standard_frames n (t + real m * STANDARD_FRAME_TIME) g (standard_frames m t g s)"
  by (induction m arbitrary: t s) (simp_all add: algebra_simps)

text \<open>The first frame of the run, whatever its time delta, establishes the invariant.\<close>

lemma first_frame_decaying:
  assumes "\<not> disposed s" and "friction s = Fin f" and "scrolling s = Some (x, y)"
    and "raf_queue s = []"
  shows "decaying f (max (magnitude x) (magnitude y)) (t + STANDARD_FRAME_TIME) (render t g s)"
proof -
  let ?td = "timeDelta t g s"
  obtain c where c: "adjustedFriction (friction s) ?td = Fin c" "0 \<le> c" "c \<le> 1"
    using adjustedFriction_unit [of f ?td] assms(2) by auto
  obtain a where a: "axis_velocity x (js_mul x (Fin c)) (left (currentPosition s))
        (width (getScrollLength s)) = Fin a" "\<bar>a\<bar> \<le> magnitude x"
    using axis_velocity_shrinks [OF c(2,3), of x] by (auto simp add: getScrollLength_def)
  obtain b where b: "axis_velocity y (js_mul y (Fin c)) (top' (currentPosition s))
        (height (getScrollLength s)) = Fin b" "\<bar>b\<bar> \<le> magnitude y"
    using axis_velocity_shrinks [OF c(2,3), of y] by (auto simp add: getScrollLength_def)
  have sc: "scrolling (render t g s) = (if a = 0 \<and> b = 0 then None else Some (Fin a, Fin b))"
    using assms(1,3) c(1) a(1) b(1)
    by (simp add: render_scrolling scrolling_block_def Let_def js_eq_def)
  show ?thesis
  proof (cases "a = 0 \<and> b = 0")
    case True
    with sc assms(1,2) show ?thesis by (simp add: decaying_def)
  next
    case False
    with sc have "scrolling (render t g s) = Some (Fin a, Fin b)" by simp
    with render_motion_goes_on [OF assms(1,4) this] assms(1,2) a(2) b(2)
    show ?thesis by (auto simp add: decaying_def)
  qed
qed

text \<open>A standard frame keeps the invariant, with the bound reduced by the factor \<open>1 - f\<close>.\<close>

lemma standard_frame_decaying:
  assumes "0 < f" and "f < 1" and "decaying f B t s"
  shows "decaying f (B * (1 - f)) (t + STANDARD_FRAME_TIME) (frame t g s)
       \<and> (B * f < 1 / 5 \<longrightarrow> scrolling (frame t g s) = None)"
proof (cases "scrolling s")
  case None
  with assms(3) show ?thesis
    by (simp add: decaying_def frame_fields frame_scrolling_None)
next
  case (Some v)
  with assms(3) obtain a b h where v: "scrolling s = Some (Fin a, Fin b)"
    and ab: "\<bar>a\<bar> \<le> B" "\<bar>b\<bar> \<le> B"
    and h: "frameId s = Some h" "raf_queue s = [h]"
    and l: "lastFrameTime s = Some (t - STANDARD_FRAME_TIME)"
    and d: "\<not> disposed s" and fr: "friction s = Fin f"
    by (auto simp add: decaying_def)
  let ?s = "s\<lparr>raf_queue := []\<rparr>"
  have frame: "frame t g s = render t g ?s" using h by (simp add: frame_def)
  have d': "\<not> disposed ?s" and q: "raf_queue ?s = []" using d by simp_all
  have td: "timeDelta t g ?s = STANDARD_FRAME_TIME" using l by (simp add: timeDelta_def)
  have af: "adjustedFriction (friction ?s) (timeDelta t g ?s) = Fin f"
    using fr td adjustedFriction_standard [OF assms(1,2)] by simp
  obtain a' where a': "axis_velocity (Fin a) (js_mul (Fin a) (Fin f)) (left (currentPosition ?s))
        (width (getScrollLength ?s)) = Fin a'" "\<bar>a'\<bar> \<le> B * (1 - f)"
      "B * f < 1 / 5 \<longrightarrow> a' = 0"
    using axis_velocity_decays [OF assms(1,2) ab(1)] by (auto simp add: getScrollLength_def)
  obtain b' where b': "axis_velocity (Fin b) (js_mul (Fin b) (Fin f)) (top' (currentPosition ?s))
        (height (getScrollLength ?s)) = Fin b'" "\<bar>b'\<bar> \<le> B * (1 - f)"
      "B * f < 1 / 5 \<longrightarrow> b' = 0"
    using axis_velocity_decays [OF assms(1,2) ab(2)] by (auto simp add: getScrollLength_def)
  have sc: "scrolling (render t g ?s) =
              (if a' = 0 \<and> b' = 0 then None else Some (Fin a', Fin b'))"
    using v af a'(1) b'(1)
    by (simp add: render_scrolling [OF d'] scrolling_block_def Let_def js_eq_def)
  show ?thesis
  proof (cases "a' = 0 \<and> b' = 0")
    case True
    with sc d fr show ?thesis by (simp add: frame decaying_def)
  next
    case False
    with sc have "scrolling (render t g ?s) = Some (Fin a', Fin b')" by simp
    with render_motion_goes_on [OF d' q this] d fr a'(2,3) b'(2,3) False
    show ?thesis by (auto simp add: frame decaying_def)
  qed
qed

lemma standard_frames_decaying:
  assumes "0 < f" and "f < 1"
  shows "decaying f B t s \<Longrightarrow>
     decaying f (B * (1 - f) ^ n) (t + real n * STANDARD_FRAME_TIME) (standard_frames n t g s)"
proof (induction n arbitrary: B t s)
  case 0
  then show ?case by simp
next
  case (Suc n)
  from standard_frame_decaying [OF assms Suc.prems, of g]
  have "decaying f (B * (1 - f)) (t + STANDARD_FRAME_TIME) (frame t g s)" by simp
  from Suc.IH [OF this] show ?case by (simp add: algebra_simps)
qed

lemma frames_bound_ge:
  "5 * max (magnitude x) (magnitude y) \<le> real (nat \<lceil>5 * max (magnitude x) (magnitude y)\<rceil>)"
  by linarith

text \<open>
  C5: for every friction \<open>f\<close> with \<open>0 < f < 1\<close>, on a scroller that is not disposed and in
  single flight, a \<^verbatim>\<open>scrollBy\<close> that leaves this friction in effect (passed to the call,
  or the instance default), followed by nothing but frames one standard frame time
  apart, drives the scrolling motion to \<^verbatim>\<open>null\<close>: it is \<^verbatim>\<open>null\<close> after
  \<open>frames_bound x y\<close> frames, where \<open>(x, y)\<close> is the velocity the call leaves, and after any
  greater number of frames. The bound, \<open>\<lceil>5 * max(|x|, |y|)\<rceil> + 2\<close>, serves every such
  friction.
\<close>

theorem scrolling_motion_ends:
  assumes "0 < f" and "f < 1"
    and "\<not> disposed s" and "single_flight s"
    and "friction (scrollBy opts s) = Fin f"
    and "scrolling (scrollBy opts s) = Some (x, y)"
    and "frames_bound x y \<le> n"
  shows "scrolling (standard_frames n t g (scrollBy opts s)) = None"
proof -
  let ?s1 = "scrollBy opts s"
  let ?M = "max (magnitude x) (magnitude y)"
  let ?k = "nat \<lceil>5 * ?M\<rceil>"
  let ?T = "STANDARD_FRAME_TIME"
  have fr: "friction ?s1 = Fin f" by (rule assms(5))
  have d: "\<not> disposed ?s1" using assms(3) by (simp add: scrollBy_fields)
  obtain h where h: "frameId ?s1 = Some h" "raf_queue ?s1 = [h]"
    using assms(4)
    by (auto simp add: scrollBy_fields single_flight_def no_frame_def split: option.splits)
  let ?s1' = "?s1\<lparr>raf_queue := []\<rparr>"
  have first: "frame t g ?s1 = render t g ?s1'"
    using h by (simp add: frame_def)
  have "decaying f ?M (t + ?T) (render t g ?s1')"
    using d fr assms(6) by (intro first_frame_decaying) simp_all
  then have 1: "decaying f ?M (t + ?T) (frame t g ?s1)" by (simp add: first)
  let ?s2 = "standard_frames ?k (t + ?T) g (frame t g ?s1)"
  from standard_frames_decaying [OF assms(1,2) 1, of ?k g]
  have 2: "decaying f (?M * (1 - f) ^ ?k) (t + ?T + real ?k * ?T) ?s2" .
  have "?M * (1 - f) ^ ?k * f < 1 / 5"
    using assms(1,2) magnitude_nonneg [of x] frames_bound_ge [of x y]
    by (intro decay_bound) simp_all
  with standard_frame_decaying [OF assms(1,2) 2, of g]
  have 3: "scrolling (frame (t + ?T + real ?k * ?T) g ?s2) = None" by simp
  from assms(7) obtain m where n: "n = Suc (?k + Suc m)"
    by (auto simp add: frames_bound_def dest!: le_Suc_ex)
  have "standard_frames n t g ?s1
          = standard_frames (?k + Suc m) (t + ?T) g (frame t g ?s1)"
    unfolding n by (simp only: standard_frames.simps)
  also have "\<dots> = standard_frames (Suc m) (t + ?T + real ?k * ?T) g ?s2"
    by (rule standard_frames_add)
  also have "\<dots> = standard_frames m (t + ?T + real ?k * ?T + ?T) g
                    (frame (t + ?T + real ?k * ?T) g ?s2)"
    by (simp only: standard_frames.simps)
  finally show ?thesis
    using 3 by (simp add: standard_frames_scrolling_None)
qed

theorem scrolling_motion_ends_witness:
  "\<not> disposed example_scroller \<and> single_flight example_scroller
   \<and> scrolling (scrollBy \<lparr>o_left = Some (Fin 1), o_top = None, o_friction = Some (Fin (1 / 2))\<rparr>
        example_scroller) = Some (Fin 1, Fin 0)
   \<and> frames_bound (Fin 1) (Fin 0) = 7
   \<and> scrolling (standard_frames 7 1000 example_globals
        (scrollBy \<lparr>o_left = Some (Fin 1), o_top = None, o_friction = Some (Fin (1 / 2))\<rparr>
           example_scroller)) = None"
proof -
  let ?opts = "\<lparr>o_left = Some (Fin 1), o_top = None, o_friction = Some (Fin (1 / 2))\<rparr>"
  have d: "\<not> disposed example_scroller" and sf: "single_flight example_scroller"
    by (simp_all add: single_flight_def example_scroller_fields)
  have sc: "scrolling (scrollBy ?opts example_scroller) = Some (Fin 1, Fin 0)"
    by (simp add: scrollBy_fields example_scroller_fields pendingX_def pendingY_def or_zero_def)
  have fr: "friction (scrollBy ?opts example_scroller) = Fin (1 / 2)"
    by (simp add: scrollBy_fields truthy_def)
  have b: "frames_bound (Fin 1) (Fin 0) = 7"
    by (simp add: frames_bound_def magnitude_def)
  from scrolling_motion_ends
         [of "1 / 2" example_scroller ?opts "Fin 1" "Fin 0" 7 1000 example_globals,
          OF _ _ d sf fr sc]
    d sf sc b
  show ?thesis by simp
qed

end
